theory Spec2Isabelle
  imports Main
begin

section \<open>Python values\<close>

text \<open>
  The resources of \<^verbatim>\<open>keystone/api/os_federation.py\<close> exchange JSON-shaped Python
  values: request bodies, registry records ("refs") and the generic auth payload.
  A Python \<^verbatim>\<open>dict\<close> keeps its keys in insertion order, so a dictionary is an association
  list, read by its first entry for a key.
\<close>

datatype json =
    JNull
  | JBool bool
  | JInt int
  | JStr string
  | JList "json list"
  | JDict "(string \<times> json) list"

text \<open>The exceptions that the module raises, catches or lets through.\<close>

datatype error =
    Forbidden
  | ValidationError
  | NotFound
  | Conflict
  | UserNotFound
  | MetadataFileError string
  | IOError string
  | AttributeError
  | KeyError
  | TypeError
  | UnicodeDecodeError
  | Other string

text \<open>\<^verbatim>\<open>d[k] = v\<close>: an existing key keeps its position and takes the new value, a new key
  goes to the end.\<close>

fun dict_set :: "('k \<times> 'v) list \<Rightarrow> 'k \<Rightarrow> 'v \<Rightarrow> ('k \<times> 'v) list" where
  "dict_set [] k v = [(k, v)]"
| "dict_set (p # ps) k v = (if fst p = k then (k, v) # ps else p # dict_set ps k v)"

text \<open>A dictionary display \<^verbatim>\<open>{k1: v1, k2: v2, ...}\<close> and a dictionary comprehension
  store their items from left to right.\<close>

fun dict_of_items :: "('k \<times> 'v) list \<Rightarrow> ('k \<times> 'v) list \<Rightarrow> ('k \<times> 'v) list" where
  "dict_of_items acc [] = acc"
| "dict_of_items acc ((k, v) # kvs) = dict_of_items (dict_set acc k v) kvs"

text \<open>Truth value testing, as \<^verbatim>\<open>if x:\<close> does it.\<close>

fun truthy :: "json \<Rightarrow> bool" where
  "truthy JNull = False"
| "truthy (JBool b) = b"
| "truthy (JInt i) = (i \<noteq> 0)"
| "truthy (JStr s) = (s \<noteq> [])"
| "truthy (JList xs) = (xs \<noteq> [])"
| "truthy (JDict d) = (d \<noteq> [])"

text \<open>\<^verbatim>\<open>x[k]\<close> with a string key: a missing key raises KeyError, a value that is not a
  dictionary raises TypeError.\<close>

fun py_getitem :: "json \<Rightarrow> string \<Rightarrow> error + json" where
  "py_getitem (JDict d) k = (case map_of d k of None \<Rightarrow> Inl KeyError | Some v \<Rightarrow> Inr v)"
| "py_getitem _ k = Inl TypeError"

text \<open>\<^verbatim>\<open>x.get(k, default)\<close>: only a dictionary has the method.\<close>

fun py_get :: "json \<Rightarrow> string \<Rightarrow> json \<Rightarrow> error + json" where
  "py_get (JDict d) k dflt = (case map_of d k of None \<Rightarrow> Inr dflt | Some v \<Rightarrow> Inr v)"
| "py_get _ k dflt = Inl AttributeError"

text \<open>\<^verbatim>\<open>x.setdefault(k, default)\<close>, returning the dictionary after the call: a key that
  is there keeps its value, whatever it is.\<close>

definition dict_setdefault :: "('k \<times> 'v) list \<Rightarrow> 'k \<Rightarrow> 'v \<Rightarrow> ('k \<times> 'v) list" where
  "dict_setdefault d k dflt = (case map_of d k of None \<Rightarrow> d @ [(k, dflt)] | Some v \<Rightarrow> d)"

fun py_setdefault :: "json \<Rightarrow> string \<Rightarrow> json \<Rightarrow> error + json" where
  "py_setdefault (JDict d) k dflt = Inr (JDict (dict_setdefault d k dflt))"
| "py_setdefault _ k dflt = Inl AttributeError"

section \<open>Combining two result lists uniquely\<close>

text \<open>
  A name of the module that starts with an underscore is written without it:
  \<^verbatim>\<open>_combine_lists_uniquely\<close>, \<^verbatim>\<open>_get_idp\<close>, \<^verbatim>\<open>_list_idps\<close>, \<^verbatim>\<open>_auth\<close> and the like. A
  method that several classes define carries the name of its class.

  \<^verbatim>\<open>
  def _combine_lists_uniquely(a, b):
      if a and b:
          return {x['id']: x for x in a + b}.values()
      else:
          return a or b
  \<close>
  The comprehension keys a dictionary by \<^verbatim>\<open>x['id']\<close>. Python accepts a key only when
  it is hashable, and it identifies keys that compare equal: \<^verbatim>\<open>True\<close> and \<^verbatim>\<open>1\<close> are
  one key. \<open>hash_key\<close> gives the key a JSON value stands for, or the TypeError of an
  unhashable one.
\<close>

datatype key = KNone | KInt int | KStr string

fun hash_key :: "json \<Rightarrow> error + key" where
  "hash_key JNull = Inr KNone"
| "hash_key (JBool b) = Inr (KInt (if b then 1 else 0))"
| "hash_key (JInt i) = Inr (KInt i)"
| "hash_key (JStr s) = Inr (KStr s)"
| "hash_key (JList xs) = Inl TypeError"
| "hash_key (JDict d) = Inl TypeError"

text \<open>The key \<^verbatim>\<open>x['id']\<close> of one record.\<close>

definition record_id :: "json \<Rightarrow> error + key" where
  "record_id x = (case py_getitem x ''id'' of Inl e \<Rightarrow> Inl e | Inr v \<Rightarrow> hash_key v)"

text \<open>\<^verbatim>\<open>{x['id']: x for x in xs}\<close>, stopping at the first record that raises.\<close>

fun dict_by_id :: "(key \<times> json) list \<Rightarrow> json list \<Rightarrow> error + (key \<times> json) list" where
  "dict_by_id acc [] = Inr acc"
| "dict_by_id acc (x # xs) =
     (case record_id x of Inl e \<Rightarrow> Inl e | Inr k \<Rightarrow> dict_by_id (dict_set acc k x) xs)"

text \<open>The function itself. \<^verbatim>\<open>.values()\<close> is read as the sequence of the values in the
  dictionary's order.\<close>

definition combine_lists_uniquely :: "json list \<Rightarrow> json list \<Rightarrow> error + json list" where
  "combine_lists_uniquely a b =
     (if a \<noteq> [] \<and> b \<noteq> [] then
        (case dict_by_id [] (a @ b) of Inl e \<Rightarrow> Inl e | Inr d \<Rightarrow> Inr (map snd d))
      else Inr (if a \<noteq> [] then a else b))"

section \<open>Requests, responses and collaborators\<close>

text \<open>
  What a handler reads of the Flask request: the parsed JSON body
  (\<^verbatim>\<open>self.request_body_json\<close>) and the WSGI environment (\<^verbatim>\<open>flask.request.environ\<close>).
\<close>

record request =
  request_body_json :: json
  environ :: "(string \<times> json) list"

text \<open>\<^verbatim>\<open>request.Request(flask.request.environ)\<close>: the webob request wraps the same
  environment.\<close>

datatype webob_request = Request "(string \<times> json) list"

text \<open>The two response representations. Headers are a multi-dictionary: a list of
  (name, value) items in order.\<close>

record webob_response =
  wr_body :: string
  wr_status_code :: int
  wr_headers :: "(string \<times> string) list"

record flask_response =
  fr_data :: string
  fr_status_code :: int
  fr_headers :: "(string \<times> string) list"

text \<open>What a handler returns to Flask: a body, a (body, status) pair, or a response
  object.\<close>

datatype result =
    Json json
  | Json_status json int
  | Response flask_response

text \<open>The resource classes that derive from \<^verbatim>\<open>_ResourceBase\<close>, with the class
  attributes that the module sets.\<close>

datatype resource =
    IdentityProvidersResource
  | IdentityProvidersProtocolsResource
  | MappingResource
  | ServiceProvidersResource

fun collection_key :: "resource \<Rightarrow> string" where
  "collection_key IdentityProvidersResource = ''identity_providers''"
| "collection_key IdentityProvidersProtocolsResource = ''protocols''"
| "collection_key MappingResource = ''mappings''"
| "collection_key ServiceProvidersResource = ''service_providers''"

fun member_key :: "resource \<Rightarrow> string" where
  "member_key IdentityProvidersResource = ''identity_provider''"
| "member_key IdentityProvidersProtocolsResource = ''protocol''"
| "member_key MappingResource = ''mapping''"
| "member_key ServiceProvidersResource = ''service_provider''"

text \<open>\<^verbatim>\<open>_public_parameters\<close>; \<open>None\<close> where the class inherits the attribute.\<close>

fun public_parameters :: "resource \<Rightarrow> string list option" where
  "public_parameters IdentityProvidersResource =
     Some [''id'', ''enabled'', ''description'', ''remote_ids'', ''links'', ''domain_id'']"
| "public_parameters IdentityProvidersProtocolsResource = Some [''id'', ''mapping_id'', ''links'']"
| "public_parameters MappingResource = None"
| "public_parameters ServiceProvidersResource =
     Some [''auth_url'', ''id'', ''enabled'', ''description'', ''links'', ''relay_state_prefix'',
           ''sp_url'']"

text \<open>The schemas of \<^verbatim>\<open>keystone.federation.schema\<close> that the module names.\<close>

datatype schema =
    identity_provider_create
  | identity_provider_update
  | protocol_create
  | protocol_update
  | service_provider_create
  | service_provider_update

text \<open>The calls on \<^verbatim>\<open>PROVIDERS.federation_api\<close> and \<^verbatim>\<open>PROVIDERS.assignment_api\<close>,
  with their arguments. Driver hints are opaque to this module.\<close>

datatype fed_call =
    Get_idp string
  | List_idps json
  | Create_idp string json
  | Update_idp string json
  | Delete_idp string
  | Get_protocol string string
  | List_protocols string
  | Create_protocol string string json
  | Update_protocol string string json
  | Delete_protocol string string
  | Get_mapping string
  | List_mappings
  | Create_mapping string json
  | Update_mapping string json
  | Delete_mapping string
  | Get_sp string
  | List_sps json
  | Create_sp string json
  | Update_sp string json
  | Delete_sp string

datatype asg_call =
    List_projects_for_user json
  | List_projects_for_groups json
  | List_domains_for_user json
  | List_domains_for_groups json

text \<open>
  Everything the module imports and calls is a parameter: the policy enforcer, the two
  validators, the helpers of \<^verbatim>\<open>keystone.server.flask\<close>, the provider APIs, the token
  pipeline, the file system, and the configuration values. \<open>'s\<close> is the state behind
  them (the registries, the files, whatever the pipeline keeps). A call that raises
  returns \<open>Inl\<close> of the exception (or \<open>Some\<close> of it where there is no value to return).
\<close>

record 's deps =
  relay_state_prefix :: json
  idp_metadata_path :: string
  AUTH_CONTEXT_ENV :: string
  enforce_call :: "string \<Rightarrow> string list option \<Rightarrow> request \<Rightarrow> 's \<Rightarrow> error option"
  lazy_validate :: "schema \<Rightarrow> json \<Rightarrow> error option"
  validate_mapping_structure :: "json \<Rightarrow> error option"
  normalize_dict :: "json \<Rightarrow> error + json"
  add_self_referential_link :: "resource \<Rightarrow> json \<Rightarrow> string option \<Rightarrow> error + json"
  filter_params :: "resource \<Rightarrow> json \<Rightarrow> error + json"
  wrap_collection :: "resource option \<Rightarrow> json \<Rightarrow> json option \<Rightarrow> string option \<Rightarrow> 's \<Rightarrow> error + json"
  build_driver_hints :: "resource \<Rightarrow> request \<Rightarrow> string list \<Rightarrow> json"
  base_url :: "json \<Rightarrow> error + string"
  str_of :: "json \<Rightarrow> string"
  federation_api :: "fed_call \<Rightarrow> 's \<Rightarrow> (error + json) \<times> 's"
  assignment_api :: "asg_call \<Rightarrow> 's \<Rightarrow> (error + json list) \<times> 's"
  authenticate_for_token :: "webob_request \<Rightarrow> json \<Rightarrow> 's \<Rightarrow> (error + webob_response) \<times> 's"
  open_read :: "string \<Rightarrow> 's \<Rightarrow> error + string"
  default_headers :: "string \<Rightarrow> int \<Rightarrow> (string \<times> string) list"

section \<open>Running a handler\<close>

text \<open>
  A handler runs on a world: the state behind the collaborators and the trace of the
  calls made on them so far, oldest first. It returns a value or the exception that
  ended it, and the world it leaves.
\<close>

datatype event =
    Enforce string "string list option"
  | Lazy_validate schema json
  | Validate_mapping_structure json
  | Federation_api fed_call
  | Assignment_api asg_call
  | Authenticate_for_token webob_request json
  | Open_read string

record 's world =
  trace :: "event list"
  outside :: 's

type_synonym ('s, 'a) action = "'s world \<Rightarrow> (error + 'a) \<times> 's world"

definition ret :: "'a \<Rightarrow> ('s, 'a) action" where
  "ret x w = (Inr x, w)"

definition lift :: "error + 'a \<Rightarrow> ('s, 'a) action" where
  "lift r w = (r, w)"

definition then_do :: "('s, 'a) action \<Rightarrow> ('a \<Rightarrow> ('s, 'b) action) \<Rightarrow> ('s, 'b) action" where
  "then_do m f w = (case m w of (Inl e, w') \<Rightarrow> (Inl e, w') | (Inr x, w') \<Rightarrow> f x w')"

text \<open>The same sequencing for a computation that touches no collaborator.\<close>

definition and_then :: "error + 'a \<Rightarrow> ('a \<Rightarrow> error + 'b) \<Rightarrow> error + 'b" where
  "and_then r f = (case r of Inl e \<Rightarrow> Inl e | Inr x \<Rightarrow> f x)"

fun map_raising :: "('a \<Rightarrow> error + 'b) \<Rightarrow> 'a list \<Rightarrow> error + 'b list" where
  "map_raising f [] = Inr []"
| "map_raising f (x # xs) =
     and_then (f x) (\<lambda>y. and_then (map_raising f xs) (\<lambda>ys. Inr (y # ys)))"

definition emit :: "event \<Rightarrow> 's world \<Rightarrow> 's world" where
  "emit ev w = w\<lparr>trace := trace w @ [ev]\<rparr>"

text \<open>\<^verbatim>\<open>ENFORCER.enforce_call(action=..., filters=...)\<close>: returns nothing, or raises.\<close>

definition ENFORCER_enforce_call ::
  "'s deps \<Rightarrow> request \<Rightarrow> string \<Rightarrow> string list option \<Rightarrow> ('s, unit) action" where
  "ENFORCER_enforce_call D req act filters w =
     (case enforce_call D act filters req (outside w) of
        Some e \<Rightarrow> (Inl e, emit (Enforce act filters) w)
      | None \<Rightarrow> (Inr (), emit (Enforce act filters) w))"

definition validation_lazy_validate :: "'s deps \<Rightarrow> schema \<Rightarrow> json \<Rightarrow> ('s, unit) action" where
  "validation_lazy_validate D sch x w =
     (case lazy_validate D sch x of
        Some e \<Rightarrow> (Inl e, emit (Lazy_validate sch x) w)
      | None \<Rightarrow> (Inr (), emit (Lazy_validate sch x) w))"

definition utils_validate_mapping_structure :: "'s deps \<Rightarrow> json \<Rightarrow> ('s, unit) action" where
  "utils_validate_mapping_structure D x w =
     (case validate_mapping_structure D x of
        Some e \<Rightarrow> (Inl e, emit (Validate_mapping_structure x) w)
      | None \<Rightarrow> (Inr (), emit (Validate_mapping_structure x) w))"

definition PROVIDERS_federation_api :: "'s deps \<Rightarrow> fed_call \<Rightarrow> ('s, json) action" where
  "PROVIDERS_federation_api D c w =
     (case federation_api D c (outside w) of
        (r, s') \<Rightarrow> (r, (emit (Federation_api c) w)\<lparr>outside := s'\<rparr>))"

definition PROVIDERS_assignment_api :: "'s deps \<Rightarrow> asg_call \<Rightarrow> ('s, json list) action" where
  "PROVIDERS_assignment_api D c w =
     (case assignment_api D c (outside w) of
        (r, s') \<Rightarrow> (r, (emit (Assignment_api c) w)\<lparr>outside := s'\<rparr>))"

definition compat_controller_authenticate_for_token ::
  "'s deps \<Rightarrow> webob_request \<Rightarrow> json \<Rightarrow> ('s, webob_response) action" where
  "compat_controller_authenticate_for_token D rq auth w =
     (case authenticate_for_token D rq auth (outside w) of
        (r, s') \<Rightarrow> (r, (emit (Authenticate_for_token rq auth) w)\<lparr>outside := s'\<rparr>))"

text \<open>\<^verbatim>\<open>try: ... except exception.UserNotFound: pass\<close> around a lookup whose variable was
  set to \<open>dflt\<close> before: only that exception is caught, and what the failed call did
  to the world stays done.\<close>

definition except_UserNotFound :: "('s, 'a) action \<Rightarrow> 'a \<Rightarrow> ('s, 'a) action" where
  "except_UserNotFound m dflt w =
     (case m w of (Inl UserNotFound, w') \<Rightarrow> (Inr dflt, w') | (r, w') \<Rightarrow> (r, w'))"

section \<open>More of Python\<close>

text \<open>\<^verbatim>\<open>x[k] = v\<close> with a string key: only a dictionary takes it.\<close>

fun py_setitem :: "json \<Rightarrow> string \<Rightarrow> json \<Rightarrow> error + json" where
  "py_setitem (JDict d) k v = Inr (JDict (dict_set d k v))"
| "py_setitem _ k v = Inl TypeError"

text \<open>Iteration: a list gives its elements, a dictionary its keys, a string its
  characters; nothing else is iterable.\<close>

fun py_iter :: "json \<Rightarrow> error + json list" where
  "py_iter (JList xs) = Inr xs"
| "py_iter (JDict d) = Inr (map (\<lambda>kv. JStr (fst kv)) d)"
| "py_iter (JStr s) = Inr (map (\<lambda>c. JStr [c]) s)"
| "py_iter _ = Inl TypeError"

text \<open>\<^verbatim>\<open>'/'.join(s)\<close> on a string puts the separator between its characters.\<close>

fun join_chars :: "string \<Rightarrow> string" where
  "join_chars [] = []"
| "join_chars [c] = [c]"
| "join_chars (c # cs) = c # CHR ''/'' # join_chars cs"

text \<open>\<^verbatim>\<open>'/'.join([base_path, name])\<close>: both items must be strings.\<close>

fun join_path :: "json \<Rightarrow> string \<Rightarrow> error + string" where
  "join_path (JStr s) name = Inr (s @ ''/'' @ name)"
| "join_path _ name = Inl TypeError"

text \<open>The status codes of \<^verbatim>\<open>http_client\<close>.\<close>

definition OK :: int where "OK = 200"
definition CREATED :: int where "CREATED = 201"
definition NO_CONTENT :: int where "NO_CONTENT = 204"

section \<open>The resource base\<close>

text \<open>
  \<^verbatim>\<open>_add_related_links\<close> changes the ref in place; the model returns the changed ref.
  The base class does nothing. For an identity provider:
  \<^verbatim>\<open>
  base_path = ref['links'].get('self')
  if base_path is None:
      base_path = '/'.join(ks_flask.base_url(path='/%s' % ref['id']))
  for name in ['protocols']:
      ref['links'][name] = '/'.join([base_path, name])
  \<close>
  and for a protocol:
  \<^verbatim>\<open>
  ref.setdefault('links', {})
  ref['links']['identity_provider'] = ks_flask.base_url(path=ref['idp_id'])
  \<close>
\<close>

fun add_related_links :: "'s deps \<Rightarrow> resource \<Rightarrow> json \<Rightarrow> error + json" where
  "add_related_links D IdentityProvidersResource ref =
     and_then (py_getitem ref ''links'') (\<lambda>links.
     and_then (py_get links ''self'' JNull) (\<lambda>self_link.
     and_then (if self_link = JNull then
                 and_then (py_getitem ref ''id'') (\<lambda>i.
                 and_then (base_url D (JStr (''/'' @ str_of D i))) (\<lambda>u.
                 Inr (JStr (join_chars u))))
               else Inr self_link) (\<lambda>base_path.
     and_then (join_path base_path ''protocols'') (\<lambda>v.
     and_then (py_getitem ref ''links'') (\<lambda>links.
     and_then (py_setitem links ''protocols'' (JStr v)) (\<lambda>links'.
     py_setitem ref ''links'' links'))))))"
| "add_related_links D IdentityProvidersProtocolsResource ref =
     and_then (py_setdefault ref ''links'' (JDict [])) (\<lambda>ref.
     and_then (py_getitem ref ''idp_id'') (\<lambda>i.
     and_then (base_url D i) (\<lambda>u.
     and_then (py_getitem ref ''links'') (\<lambda>links.
     and_then (py_setitem links ''identity_provider'' (JStr u)) (\<lambda>links'.
     py_setitem ref ''links'' links')))))"
| "add_related_links D MappingResource ref = Inr ref"
| "add_related_links D ServiceProvidersResource ref = Inr ref"

text \<open>
  \<^verbatim>\<open>
  def wrap_member(cls, ref, collection_name=None, member_name=None):
      cls._add_self_referential_link(ref, collection_name)
      cls._add_related_links(ref)
      return {member_name or cls.member_key: cls.filter_params(ref)}
  \<close>
\<close>

definition wrap_member ::
  "'s deps \<Rightarrow> resource \<Rightarrow> json \<Rightarrow> string option \<Rightarrow> string option \<Rightarrow> error + json" where
  "wrap_member D cls ref collection_name member_name =
     and_then (add_self_referential_link D cls ref collection_name) (\<lambda>ref.
     and_then (add_related_links D cls ref) (\<lambda>ref.
     and_then (filter_params D cls ref) (\<lambda>ref.
     Inr (JDict [(case member_name of
                    Some m \<Rightarrow> if m \<noteq> [] then m else member_key cls
                  | None \<Rightarrow> member_key cls, ref)]))))"

text \<open>\<^verbatim>\<open>for r in collection[key]: self._add_related_links(r)\<close>: the refs of a list are
  changed where they are.\<close>

definition add_related_links_in ::
  "'s deps \<Rightarrow> resource \<Rightarrow> json \<Rightarrow> error + json" where
  "add_related_links_in D cls collection =
     and_then (py_getitem collection (collection_key cls)) (\<lambda>items.
     case items of
       JList rs \<Rightarrow>
         and_then (map_raising (add_related_links D cls) rs) (\<lambda>rs'.
         py_setitem collection (collection_key cls) (JList rs'))
     | _ \<Rightarrow>
         and_then (py_iter items) (\<lambda>rs.
         and_then (map_raising (add_related_links D cls) rs) (\<lambda>rs'.
         Inr collection)))"

text \<open>\<^verbatim>\<open>self.request_body_json.get(member, {})\<close>\<close>

definition body_member :: "request \<Rightarrow> string \<Rightarrow> error + json" where
  "body_member req k = py_get (request_body_json req) k (JDict [])"

section \<open>Identity providers\<close>

definition get_idp :: "'s deps \<Rightarrow> request \<Rightarrow> string \<Rightarrow> ('s, result) action" where
  "get_idp D req idp_id =
     then_do (ENFORCER_enforce_call D req ''identity:get_identity_provider'' None) (\<lambda>_.
     then_do (PROVIDERS_federation_api D (Get_idp idp_id)) (\<lambda>ref.
     then_do (lift (wrap_member D IdentityProvidersResource ref None None)) (\<lambda>b.
     ret (Json b))))"

definition list_idps :: "'s deps \<Rightarrow> request \<Rightarrow> ('s, result) action" where
  "list_idps D req =
     then_do (ENFORCER_enforce_call D req ''identity:list_identity_providers''
                (Some [''id'', ''enabled''])) (\<lambda>_.
     then_do (PROVIDERS_federation_api D
                (List_idps (build_driver_hints D IdentityProvidersResource req
                   [''id'', ''enabled'']))) (\<lambda>refs.
     then_do (lift (py_iter refs)) (\<lambda>rs.
     then_do (lift (map_raising (filter_params D IdentityProvidersResource) rs)) (\<lambda>refs.
     then_do (\<lambda>w. lift (wrap_collection D (Some IdentityProvidersResource) (JList refs)
                (Some (build_driver_hints D IdentityProvidersResource req [''id'', ''enabled'']))
                None (outside w)) w) (\<lambda>collection.
     then_do (lift (add_related_links_in D IdentityProvidersResource collection)) (\<lambda>collection.
     ret (Json collection)))))))"

definition IdentityProvidersResource_get ::
  "'s deps \<Rightarrow> request \<Rightarrow> string option \<Rightarrow> ('s, result) action" where
  "IdentityProvidersResource_get D req idp_id =
     (case idp_id of Some i \<Rightarrow> get_idp D req i | None \<Rightarrow> list_idps D req)"

text \<open>
  \<^verbatim>\<open>
  def put(self, idp_id):
      ENFORCER.enforce_call(action='identity:create_identity_provider')
      idp = self.request_body_json.get('identity_provider', {})
      validation.lazy_validate(schema.identity_provider_create, idp)
      idp = self._normalize_dict(idp)
      idp.setdefault('enabled', False)
      idp_ref = PROVIDERS.federation_api.create_idp(idp_id, idp)
      return self.wrap_member(idp_ref), http_client.CREATED
  \<close>
\<close>

definition IdentityProvidersResource_put ::
  "'s deps \<Rightarrow> request \<Rightarrow> string \<Rightarrow> ('s, result) action" where
  "IdentityProvidersResource_put D req idp_id =
     then_do (ENFORCER_enforce_call D req ''identity:create_identity_provider'' None) (\<lambda>_.
     then_do (lift (body_member req ''identity_provider'')) (\<lambda>idp.
     then_do (validation_lazy_validate D identity_provider_create idp) (\<lambda>_.
     then_do (lift (normalize_dict D idp)) (\<lambda>idp.
     then_do (lift (py_setdefault idp ''enabled'' (JBool False))) (\<lambda>idp.
     then_do (PROVIDERS_federation_api D (Create_idp idp_id idp)) (\<lambda>idp_ref.
     then_do (lift (wrap_member D IdentityProvidersResource idp_ref None None)) (\<lambda>b.
     ret (Json_status b CREATED))))))))"

definition IdentityProvidersResource_patch ::
  "'s deps \<Rightarrow> request \<Rightarrow> string \<Rightarrow> ('s, result) action" where
  "IdentityProvidersResource_patch D req idp_id =
     then_do (ENFORCER_enforce_call D req ''identity:update_identity_provider'' None) (\<lambda>_.
     then_do (lift (body_member req ''identity_provider'')) (\<lambda>idp.
     then_do (validation_lazy_validate D identity_provider_update idp) (\<lambda>_.
     then_do (lift (normalize_dict D idp)) (\<lambda>idp.
     then_do (PROVIDERS_federation_api D (Update_idp idp_id idp)) (\<lambda>idp_ref.
     then_do (lift (wrap_member D IdentityProvidersResource idp_ref None None)) (\<lambda>b.
     ret (Json b)))))))"

definition IdentityProvidersResource_delete ::
  "'s deps \<Rightarrow> request \<Rightarrow> string \<Rightarrow> ('s, result) action" where
  "IdentityProvidersResource_delete D req idp_id =
     then_do (ENFORCER_enforce_call D req ''identity:delete_identity_provider'' None) (\<lambda>_.
     then_do (PROVIDERS_federation_api D (Delete_idp idp_id)) (\<lambda>_.
     ret (Json_status JNull NO_CONTENT)))"

section \<open>Protocols of an identity provider\<close>

definition get_protocol :: "'s deps \<Rightarrow> request \<Rightarrow> string \<Rightarrow> string \<Rightarrow> ('s, result) action" where
  "get_protocol D req idp_id protocol_id =
     then_do (ENFORCER_enforce_call D req ''identity:get_protocol'' None) (\<lambda>_.
     then_do (PROVIDERS_federation_api D (Get_protocol idp_id protocol_id)) (\<lambda>ref.
     then_do (lift (wrap_member D IdentityProvidersProtocolsResource ref None None)) (\<lambda>b.
     ret (Json b))))"

definition list_protocols :: "'s deps \<Rightarrow> request \<Rightarrow> string \<Rightarrow> ('s, result) action" where
  "list_protocols D req idp_id =
     then_do (ENFORCER_enforce_call D req ''identity:list_protocols'' None) (\<lambda>_.
     then_do (PROVIDERS_federation_api D (List_protocols idp_id)) (\<lambda>protocol_refs.
     then_do (lift (py_iter protocol_refs)) (\<lambda>protocols.
     then_do (\<lambda>w. lift (wrap_collection D (Some IdentityProvidersProtocolsResource)
                (JList protocols) None None (outside w)) w) (\<lambda>collection.
     then_do (lift (add_related_links_in D IdentityProvidersProtocolsResource collection))
       (\<lambda>collection.
     ret (Json collection))))))"

definition IdentityProvidersProtocolsResource_get ::
  "'s deps \<Rightarrow> request \<Rightarrow> string \<Rightarrow> string option \<Rightarrow> ('s, result) action" where
  "IdentityProvidersProtocolsResource_get D req idp_id protocol_id =
     (case protocol_id of
        Some p \<Rightarrow> get_protocol D req idp_id p
      | None \<Rightarrow> list_protocols D req idp_id)"

definition IdentityProvidersProtocolsResource_put ::
  "'s deps \<Rightarrow> request \<Rightarrow> string \<Rightarrow> string \<Rightarrow> ('s, result) action" where
  "IdentityProvidersProtocolsResource_put D req idp_id protocol_id =
     then_do (ENFORCER_enforce_call D req ''identity:create_protocol'' None) (\<lambda>_.
     then_do (lift (body_member req ''protocol'')) (\<lambda>protocol.
     then_do (validation_lazy_validate D protocol_create protocol) (\<lambda>_.
     then_do (lift (normalize_dict D protocol)) (\<lambda>protocol.
     then_do (PROVIDERS_federation_api D (Create_protocol idp_id protocol_id protocol)) (\<lambda>ref.
     then_do (lift (wrap_member D IdentityProvidersProtocolsResource ref None None)) (\<lambda>b.
     ret (Json_status b CREATED)))))))"

text \<open>The update of a protocol passes the body on as it came: it does not normalize.\<close>

definition IdentityProvidersProtocolsResource_patch ::
  "'s deps \<Rightarrow> request \<Rightarrow> string \<Rightarrow> string \<Rightarrow> ('s, result) action" where
  "IdentityProvidersProtocolsResource_patch D req idp_id protocol_id =
     then_do (ENFORCER_enforce_call D req ''identity:update_protocol'' None) (\<lambda>_.
     then_do (lift (body_member req ''protocol'')) (\<lambda>protocol.
     then_do (validation_lazy_validate D protocol_update protocol) (\<lambda>_.
     then_do (PROVIDERS_federation_api D (Update_protocol idp_id protocol_id protocol)) (\<lambda>ref.
     then_do (lift (wrap_member D IdentityProvidersProtocolsResource ref None None)) (\<lambda>b.
     ret (Json b))))))"

definition IdentityProvidersProtocolsResource_delete ::
  "'s deps \<Rightarrow> request \<Rightarrow> string \<Rightarrow> string \<Rightarrow> ('s, result) action" where
  "IdentityProvidersProtocolsResource_delete D req idp_id protocol_id =
     then_do (ENFORCER_enforce_call D req ''identity:delete_protocol'' None) (\<lambda>_.
     then_do (PROVIDERS_federation_api D (Delete_protocol idp_id protocol_id)) (\<lambda>_.
     ret (Json_status JNull NO_CONTENT)))"

section \<open>Mappings\<close>

definition get_mapping :: "'s deps \<Rightarrow> request \<Rightarrow> string \<Rightarrow> ('s, result) action" where
  "get_mapping D req mapping_id =
     then_do (ENFORCER_enforce_call D req ''identity:get_mapping'' None) (\<lambda>_.
     then_do (PROVIDERS_federation_api D (Get_mapping mapping_id)) (\<lambda>ref.
     then_do (lift (wrap_member D MappingResource ref None None)) (\<lambda>b.
     ret (Json b))))"

definition list_mappings :: "'s deps \<Rightarrow> request \<Rightarrow> ('s, result) action" where
  "list_mappings D req =
     then_do (ENFORCER_enforce_call D req ''identity:list_mappings'' None) (\<lambda>_.
     then_do (PROVIDERS_federation_api D List_mappings) (\<lambda>refs.
     then_do (\<lambda>w. lift (wrap_collection D (Some MappingResource) refs None None (outside w)) w)
       (\<lambda>collection.
     ret (Json collection))))"

definition MappingResource_get ::
  "'s deps \<Rightarrow> request \<Rightarrow> string option \<Rightarrow> ('s, result) action" where
  "MappingResource_get D req mapping_id =
     (case mapping_id of Some m \<Rightarrow> get_mapping D req m | None \<Rightarrow> list_mappings D req)"

text \<open>
  \<^verbatim>\<open>
  def put(self, mapping_id):
      ENFORCER.enforce_call(action='identity:create_mapping')
      mapping = self.request_body_json.get('mapping', {})
      mapping = self._normalize_dict(mapping)
      utils.validate_mapping_structure(mapping)
      mapping_ref = PROVIDERS.federation_api.create_mapping(mapping_id, mapping)
      return self.wrap_member(mapping_ref), http_client.CREATED
  \<close>
  and \<^verbatim>\<open>patch\<close> is the same with \<^verbatim>\<open>identity:update_mapping\<close>, \<^verbatim>\<open>update_mapping\<close>
  and no status.
\<close>

definition MappingResource_put :: "'s deps \<Rightarrow> request \<Rightarrow> string \<Rightarrow> ('s, result) action" where
  "MappingResource_put D req mapping_id =
     then_do (ENFORCER_enforce_call D req ''identity:create_mapping'' None) (\<lambda>_.
     then_do (lift (body_member req ''mapping'')) (\<lambda>mapping.
     then_do (lift (normalize_dict D mapping)) (\<lambda>mapping.
     then_do (utils_validate_mapping_structure D mapping) (\<lambda>_.
     then_do (PROVIDERS_federation_api D (Create_mapping mapping_id mapping)) (\<lambda>mapping_ref.
     then_do (lift (wrap_member D MappingResource mapping_ref None None)) (\<lambda>b.
     ret (Json_status b CREATED)))))))"

definition MappingResource_patch :: "'s deps \<Rightarrow> request \<Rightarrow> string \<Rightarrow> ('s, result) action" where
  "MappingResource_patch D req mapping_id =
     then_do (ENFORCER_enforce_call D req ''identity:update_mapping'' None) (\<lambda>_.
     then_do (lift (body_member req ''mapping'')) (\<lambda>mapping.
     then_do (lift (normalize_dict D mapping)) (\<lambda>mapping.
     then_do (utils_validate_mapping_structure D mapping) (\<lambda>_.
     then_do (PROVIDERS_federation_api D (Update_mapping mapping_id mapping)) (\<lambda>mapping_ref.
     then_do (lift (wrap_member D MappingResource mapping_ref None None)) (\<lambda>b.
     ret (Json b)))))))"

definition MappingResource_delete :: "'s deps \<Rightarrow> request \<Rightarrow> string \<Rightarrow> ('s, result) action" where
  "MappingResource_delete D req mapping_id =
     then_do (ENFORCER_enforce_call D req ''identity:delete_mapping'' None) (\<lambda>_.
     then_do (PROVIDERS_federation_api D (Delete_mapping mapping_id)) (\<lambda>_.
     ret (Json_status JNull NO_CONTENT)))"

section \<open>Service providers\<close>

definition get_service_provider :: "'s deps \<Rightarrow> request \<Rightarrow> string \<Rightarrow> ('s, result) action" where
  "get_service_provider D req sp_id =
     then_do (ENFORCER_enforce_call D req ''identity:get_service_provider'' None) (\<lambda>_.
     then_do (PROVIDERS_federation_api D (Get_sp sp_id)) (\<lambda>ref.
     then_do (lift (wrap_member D ServiceProvidersResource ref None None)) (\<lambda>b.
     ret (Json b))))"

definition list_service_providers :: "'s deps \<Rightarrow> request \<Rightarrow> ('s, result) action" where
  "list_service_providers D req =
     then_do (ENFORCER_enforce_call D req ''identity:list_service_providers''
                (Some [''id'', ''enabled''])) (\<lambda>_.
     then_do (PROVIDERS_federation_api D
                (List_sps (build_driver_hints D ServiceProvidersResource req
                   [''id'', ''enabled'']))) (\<lambda>sps.
     then_do (lift (py_iter sps)) (\<lambda>rs.
     then_do (lift (map_raising (filter_params D ServiceProvidersResource) rs)) (\<lambda>refs.
     then_do (\<lambda>w. lift (wrap_collection D (Some ServiceProvidersResource) (JList refs)
                (Some (build_driver_hints D ServiceProvidersResource req [''id'', ''enabled'']))
                None (outside w)) w) (\<lambda>collection.
     ret (Json collection))))))"

definition ServiceProvidersResource_get ::
  "'s deps \<Rightarrow> request \<Rightarrow> string option \<Rightarrow> ('s, result) action" where
  "ServiceProvidersResource_get D req sp_id =
     (case sp_id of
        Some i \<Rightarrow> get_service_provider D req i
      | None \<Rightarrow> list_service_providers D req)"

text \<open>
  \<^verbatim>\<open>
  def put(self, sp_id):
      ENFORCER.enforce_call(action='identity:create_service_provider')
      sp = self.request_body_json.get('service_provider', {})
      validation.lazy_validate(schema.service_provider_create, sp)
      sp = self._normalize_dict(sp)
      sp.setdefault('enabled', False)
      sp.setdefault('relay_state_prefix', CONF.saml.relay_state_prefix)
      sp_ref = PROVIDERS.federation_api.create_sp(sp_id, sp)
      return self.wrap_member(sp_ref), http_client.CREATED
  \<close>
\<close>

definition ServiceProvidersResource_put ::
  "'s deps \<Rightarrow> request \<Rightarrow> string \<Rightarrow> ('s, result) action" where
  "ServiceProvidersResource_put D req sp_id =
     then_do (ENFORCER_enforce_call D req ''identity:create_service_provider'' None) (\<lambda>_.
     then_do (lift (body_member req ''service_provider'')) (\<lambda>sp.
     then_do (validation_lazy_validate D service_provider_create sp) (\<lambda>_.
     then_do (lift (normalize_dict D sp)) (\<lambda>sp.
     then_do (lift (py_setdefault sp ''enabled'' (JBool False))) (\<lambda>sp.
     then_do (lift (py_setdefault sp ''relay_state_prefix'' (relay_state_prefix D))) (\<lambda>sp.
     then_do (PROVIDERS_federation_api D (Create_sp sp_id sp)) (\<lambda>sp_ref.
     then_do (lift (wrap_member D ServiceProvidersResource sp_ref None None)) (\<lambda>b.
     ret (Json_status b CREATED)))))))))"

definition ServiceProvidersResource_patch ::
  "'s deps \<Rightarrow> request \<Rightarrow> string \<Rightarrow> ('s, result) action" where
  "ServiceProvidersResource_patch D req sp_id =
     then_do (ENFORCER_enforce_call D req ''identity:update_service_provider'' None) (\<lambda>_.
     then_do (lift (body_member req ''service_provider'')) (\<lambda>sp.
     then_do (validation_lazy_validate D service_provider_update sp) (\<lambda>_.
     then_do (lift (normalize_dict D sp)) (\<lambda>sp.
     then_do (PROVIDERS_federation_api D (Update_sp sp_id sp)) (\<lambda>sp_ref.
     then_do (lift (wrap_member D ServiceProvidersResource sp_ref None None)) (\<lambda>b.
     ret (Json b)))))))"

definition ServiceProvidersResource_delete ::
  "'s deps \<Rightarrow> request \<Rightarrow> string \<Rightarrow> ('s, result) action" where
  "ServiceProvidersResource_delete D req sp_id =
     then_do (ENFORCER_enforce_call D req ''identity:delete_service_provider'' None) (\<lambda>_.
     then_do (PROVIDERS_federation_api D (Delete_sp sp_id)) (\<lambda>_.
     ret (Json_status JNull NO_CONTENT)))"

section \<open>Projects and domains of a federated user\<close>

text \<open>
  \<^verbatim>\<open>
  ENFORCER.enforce_call(action='identity:get_auth_projects')
  auth_context = flask.request.environ.get(authorization.AUTH_CONTEXT_ENV)
  user_id = auth_context.get('user_id')
  group_ids = auth_context.get('group_ids')
  user_refs = []
  if user_id:
      try:
          user_refs = PROVIDERS.assignment_api.list_projects_for_user(user_id)
      except exception.UserNotFound:
          pass
  group_refs = []
  if group_ids:
      group_refs = PROVIDERS.assignment_api.list_projects_for_groups(group_ids)
  refs = _combine_lists_uniquely(user_refs, group_refs)
  return ks_flask.ResourceBase.wrap_collection(refs, collection_name='projects')
  \<close>
  The handler for domains is the same text with \<^verbatim>\<open>identity:get_auth_domains\<close>,
  \<^verbatim>\<open>list_domains_for_user\<close>, \<^verbatim>\<open>list_domains_for_groups\<close> and \<^verbatim>\<open>'domains'\<close>.
\<close>

definition auth_context_of :: "'s deps \<Rightarrow> request \<Rightarrow> json" where
  "auth_context_of D req =
     (case map_of (environ req) (AUTH_CONTEXT_ENV D) of None \<Rightarrow> JNull | Some v \<Rightarrow> v)"

definition OSFederationProjectResource_get :: "'s deps \<Rightarrow> request \<Rightarrow> ('s, result) action" where
  "OSFederationProjectResource_get D req =
     then_do (ENFORCER_enforce_call D req ''identity:get_auth_projects'' None) (\<lambda>_.
     then_do (lift (py_get (auth_context_of D req) ''user_id'' JNull)) (\<lambda>user_id.
     then_do (lift (py_get (auth_context_of D req) ''group_ids'' JNull)) (\<lambda>group_ids.
     then_do (if truthy user_id
              then except_UserNotFound
                     (PROVIDERS_assignment_api D (List_projects_for_user user_id)) []
              else ret []) (\<lambda>user_refs.
     then_do (if truthy group_ids
              then PROVIDERS_assignment_api D (List_projects_for_groups group_ids)
              else ret []) (\<lambda>group_refs.
     then_do (lift (combine_lists_uniquely user_refs group_refs)) (\<lambda>refs.
     then_do (\<lambda>w. lift (wrap_collection D None (JList refs) None (Some ''projects'')
                (outside w)) w) (\<lambda>collection.
     ret (Json collection))))))))"

definition OSFederationDomainResource_get :: "'s deps \<Rightarrow> request \<Rightarrow> ('s, result) action" where
  "OSFederationDomainResource_get D req =
     then_do (ENFORCER_enforce_call D req ''identity:get_auth_domains'' None) (\<lambda>_.
     then_do (lift (py_get (auth_context_of D req) ''user_id'' JNull)) (\<lambda>user_id.
     then_do (lift (py_get (auth_context_of D req) ''group_ids'' JNull)) (\<lambda>group_ids.
     then_do (if truthy user_id
              then except_UserNotFound
                     (PROVIDERS_assignment_api D (List_domains_for_user user_id)) []
              else ret []) (\<lambda>user_refs.
     then_do (if truthy group_ids
              then PROVIDERS_assignment_api D (List_domains_for_groups group_ids)
              else ret []) (\<lambda>group_refs.
     then_do (lift (combine_lists_uniquely user_refs group_refs)) (\<lambda>refs.
     then_do (\<lambda>w. lift (wrap_collection D None (JList refs) None (Some ''domains'')
                (outside w)) w) (\<lambda>collection.
     ret (Json collection))))))))"

section \<open>Response headers\<close>

text \<open>
  Header names compare without regard to case. \<open>lower\<close> is \<^verbatim>\<open>str.lower()\<close> on the ASCII
  letters, which are all a header name has.
\<close>

definition lower_char :: "char \<Rightarrow> char" where
  "lower_char c =
     (if 65 \<le> (of_char c :: nat) \<and> (of_char c :: nat) \<le> 90
      then char_of ((of_char c :: nat) + 32) else c)"

definition lower :: "string \<Rightarrow> string" where
  "lower s = map lower_char s"

text \<open>
  \<^verbatim>\<open>headers[name] = value\<close> on the headers of a Flask response: the first item of that
  name is replaced where it is and every later one removed; a new name is appended.
\<close>

fun headers_setitem ::
  "(string \<times> string) list \<Rightarrow> string \<Rightarrow> string \<Rightarrow> (string \<times> string) list" where
  "headers_setitem [] k v = [(k, v)]"
| "headers_setitem (h # hs) k v =
     (if lower (fst h) = lower k
      then (k, v) # filter (\<lambda>t. lower (fst t) \<noteq> lower k) hs
      else h # headers_setitem hs k v)"

text \<open>\<^verbatim>\<open>headers.getlist(name)\<close>: all the values of a name.\<close>

definition headers_getlist :: "(string \<times> string) list \<Rightarrow> string \<Rightarrow> string list" where
  "headers_getlist hs k = map snd (filter (\<lambda>t. lower (fst t) = lower k) hs)"

text \<open>
  \<^verbatim>\<open>webob_resp.headers.dict_of_lists()\<close> on the headers of a webob response:
  \<^verbatim>\<open>
  r = {}
  for key, val in self.items():
      r.setdefault(key.lower(), []).append(val)
  return r
  \<close>
  a dictionary from each name in lower case to the list of the values that the name has
  in any spelling, in order.
\<close>

fun add_to_lists ::
  "(string \<times> string list) list \<Rightarrow> string \<Rightarrow> string \<Rightarrow> (string \<times> string list) list" where
  "add_to_lists [] k v = [(k, [v])]"
| "add_to_lists (p # ps) k v =
     (if fst p = k then (k, snd p @ [v]) # ps else p # add_to_lists ps k v)"

fun dict_of_lists_from ::
  "(string \<times> string list) list \<Rightarrow> (string \<times> string) list \<Rightarrow> (string \<times> string list) list" where
  "dict_of_lists_from acc [] = acc"
| "dict_of_lists_from acc ((k, v) # hs) = dict_of_lists_from (add_to_lists acc (lower k) v) hs"

definition dict_of_lists :: "(string \<times> string) list \<Rightarrow> (string \<times> string list) list" where
  "dict_of_lists hs = dict_of_lists_from [] hs"

text \<open>\<^verbatim>\<open>headers.extend(d)\<close> with a dictionary of lists adds one item for every value of
  every name, after the items that are there.\<close>

definition headers_extend ::
  "(string \<times> string) list \<Rightarrow> (string \<times> string list) list \<Rightarrow> (string \<times> string) list" where
  "headers_extend hs d = hs @ concat (map (\<lambda>(k, vs). map (\<lambda>v. (k, v)) vs) d)"

text \<open>\<^verbatim>\<open>flask.make_response(body, status)\<close>: a response with that body and status, and
  the headers Flask gives a new response.\<close>

definition make_response :: "'s deps \<Rightarrow> string \<Rightarrow> int \<Rightarrow> flask_response" where
  "make_response D body status =
     \<lparr>fr_data = body, fr_status_code = status, fr_headers = default_headers D body status\<rparr>"

section \<open>SAML2 metadata\<close>

text \<open>
  \<^verbatim>\<open>
  @ks_flask.unenforced_api
  def get(self):
      metadata_path = CONF.saml.idp_metadata_path
      try:
          with open(metadata_path, 'r') as metadata_handler:
              metadata = metadata_handler.read()
      except IOError as e:
          raise exception.MetadataFileError(reason=e)
      resp = flask.make_response(metadata, http_client.OK)
      resp.headers['Content-Type'] = 'text/xml'
      return resp
  \<close>
\<close>

definition SAML2MetadataResource_get :: "'s deps \<Rightarrow> request \<Rightarrow> ('s, result) action" where
  "SAML2MetadataResource_get D req w =
     (case open_read D (idp_metadata_path D) (outside w) of
        Inl (IOError reason) \<Rightarrow>
          (Inl (MetadataFileError reason), emit (Open_read (idp_metadata_path D)) w)
      | Inl e \<Rightarrow> (Inl e, emit (Open_read (idp_metadata_path D)) w)
      | Inr metadata \<Rightarrow>
          (Inr (Response ((make_response D metadata OK)
                  \<lparr>fr_headers :=
                     headers_setitem (fr_headers (make_response D metadata OK))
                       ''Content-Type'' ''text/xml''\<rparr>)),
           emit (Open_read (idp_metadata_path D)) w))"

section \<open>Federated authentication\<close>

text \<open>
  \<^verbatim>\<open>
  def _auth(self, idp_id, protocol_id):
      compat_controller = keystone.federation.controllers.Auth()
      auth = {
          'identity': {
              'methods': [protocol_id],
              protocol_id: {
                  'identity_provider': idp_id,
                  'protocol': protocol_id
              },
          }
      }
      webob_resp = compat_controller.authenticate_for_token(
          self._construct_webob_request(), auth)
      flask_resp = flask.make_response(webob_resp.body, webob_resp.status_code)
      flask_resp.headers.extend(webob_resp.headers.dict_of_lists())
      return flask_resp
  \<close>
  \<open>auth_data\<close> is the local variable \<^verbatim>\<open>auth\<close>.
\<close>

definition auth_data :: "string \<Rightarrow> string \<Rightarrow> json" where
  "auth_data idp_id protocol_id =
     JDict (dict_of_items []
       [(''identity'', JDict (dict_of_items []
          [(''methods'', JList [JStr protocol_id]),
           (protocol_id, JDict (dict_of_items []
              [(''identity_provider'', JStr idp_id),
               (''protocol'', JStr protocol_id)]))]))])"

definition construct_webob_request :: "request \<Rightarrow> webob_request" where
  "construct_webob_request req = Request (environ req)"

definition to_flask_response :: "'s deps \<Rightarrow> webob_response \<Rightarrow> flask_response" where
  "to_flask_response D webob_resp =
     (make_response D (wr_body webob_resp) (wr_status_code webob_resp))
       \<lparr>fr_headers :=
          headers_extend (fr_headers (make_response D (wr_body webob_resp)
                                        (wr_status_code webob_resp)))
            (dict_of_lists (wr_headers webob_resp))\<rparr>"

definition OSFederationAuthResource_auth ::
  "'s deps \<Rightarrow> request \<Rightarrow> string \<Rightarrow> string \<Rightarrow> ('s, result) action" where
  "OSFederationAuthResource_auth D req idp_id protocol_id =
     then_do (compat_controller_authenticate_for_token D (construct_webob_request req)
                (auth_data idp_id protocol_id)) (\<lambda>webob_resp.
     ret (Response (to_flask_response D webob_resp)))"

definition OSFederationAuthResource_get ::
  "'s deps \<Rightarrow> request \<Rightarrow> string \<Rightarrow> string \<Rightarrow> ('s, result) action" where
  "OSFederationAuthResource_get D req idp_id protocol_id =
     OSFederationAuthResource_auth D req idp_id protocol_id"

definition OSFederationAuthResource_post ::
  "'s deps \<Rightarrow> request \<Rightarrow> string \<Rightarrow> string \<Rightarrow> ('s, result) action" where
  "OSFederationAuthResource_post D req idp_id protocol_id =
     OSFederationAuthResource_auth D req idp_id protocol_id"

section \<open>The operations of the API\<close>

text \<open>
  The routes of \<^verbatim>\<open>OSFederationAPI\<close> and of the four resource APIs map an HTTP method and
  a path to one method of one resource class. An operation is such a method with its
  path arguments.
\<close>

datatype operation =
    Idp_get "string option"
  | Idp_put string
  | Idp_patch string
  | Idp_delete string
  | Protocol_get string "string option"
  | Protocol_put string string
  | Protocol_patch string string
  | Protocol_delete string string
  | Mapping_get "string option"
  | Mapping_put string
  | Mapping_patch string
  | Mapping_delete string
  | Sp_get "string option"
  | Sp_put string
  | Sp_patch string
  | Sp_delete string
  | Projects_get
  | Domains_get
  | Metadata_get
  | Auth_get string string
  | Auth_post string string

fun handle :: "'s deps \<Rightarrow> request \<Rightarrow> operation \<Rightarrow> ('s, result) action" where
  "handle D req (Idp_get i) = IdentityProvidersResource_get D req i"
| "handle D req (Idp_put i) = IdentityProvidersResource_put D req i"
| "handle D req (Idp_patch i) = IdentityProvidersResource_patch D req i"
| "handle D req (Idp_delete i) = IdentityProvidersResource_delete D req i"
| "handle D req (Protocol_get i p) = IdentityProvidersProtocolsResource_get D req i p"
| "handle D req (Protocol_put i p) = IdentityProvidersProtocolsResource_put D req i p"
| "handle D req (Protocol_patch i p) = IdentityProvidersProtocolsResource_patch D req i p"
| "handle D req (Protocol_delete i p) = IdentityProvidersProtocolsResource_delete D req i p"
| "handle D req (Mapping_get m) = MappingResource_get D req m"
| "handle D req (Mapping_put m) = MappingResource_put D req m"
| "handle D req (Mapping_patch m) = MappingResource_patch D req m"
| "handle D req (Mapping_delete m) = MappingResource_delete D req m"
| "handle D req (Sp_get i) = ServiceProvidersResource_get D req i"
| "handle D req (Sp_put i) = ServiceProvidersResource_put D req i"
| "handle D req (Sp_patch i) = ServiceProvidersResource_patch D req i"
| "handle D req (Sp_delete i) = ServiceProvidersResource_delete D req i"
| "handle D req Projects_get = OSFederationProjectResource_get D req"
| "handle D req Domains_get = OSFederationDomainResource_get D req"
| "handle D req Metadata_get = SAML2MetadataResource_get D req"
| "handle D req (Auth_get i p) = OSFederationAuthResource_get D req i p"
| "handle D req (Auth_post i p) = OSFederationAuthResource_post D req i p"

text \<open>
  The policy check an operation is expected to make first: the action and the filters
  of its \<^verbatim>\<open>enforce_call\<close>. The three methods marked \<^verbatim>\<open>@ks_flask.unenforced_api\<close> have
  none.
\<close>

fun policy_check :: "operation \<Rightarrow> (string \<times> string list option) option" where
  "policy_check (Idp_get (Some i)) = Some (''identity:get_identity_provider'', None)"
| "policy_check (Idp_get None) =
     Some (''identity:list_identity_providers'', Some [''id'', ''enabled''])"
| "policy_check (Idp_put i) = Some (''identity:create_identity_provider'', None)"
| "policy_check (Idp_patch i) = Some (''identity:update_identity_provider'', None)"
| "policy_check (Idp_delete i) = Some (''identity:delete_identity_provider'', None)"
| "policy_check (Protocol_get i (Some p)) = Some (''identity:get_protocol'', None)"
| "policy_check (Protocol_get i None) = Some (''identity:list_protocols'', None)"
| "policy_check (Protocol_put i p) = Some (''identity:create_protocol'', None)"
| "policy_check (Protocol_patch i p) = Some (''identity:update_protocol'', None)"
| "policy_check (Protocol_delete i p) = Some (''identity:delete_protocol'', None)"
| "policy_check (Mapping_get (Some m)) = Some (''identity:get_mapping'', None)"
| "policy_check (Mapping_get None) = Some (''identity:list_mappings'', None)"
| "policy_check (Mapping_put m) = Some (''identity:create_mapping'', None)"
| "policy_check (Mapping_patch m) = Some (''identity:update_mapping'', None)"
| "policy_check (Mapping_delete m) = Some (''identity:delete_mapping'', None)"
| "policy_check (Sp_get (Some i)) = Some (''identity:get_service_provider'', None)"
| "policy_check (Sp_get None) =
     Some (''identity:list_service_providers'', Some [''id'', ''enabled''])"
| "policy_check (Sp_put i) = Some (''identity:create_service_provider'', None)"
| "policy_check (Sp_patch i) = Some (''identity:update_service_provider'', None)"
| "policy_check (Sp_delete i) = Some (''identity:delete_service_provider'', None)"
| "policy_check Projects_get = Some (''identity:get_auth_projects'', None)"
| "policy_check Domains_get = Some (''identity:get_auth_domains'', None)"
| "policy_check Metadata_get = None"
| "policy_check (Auth_get i p) = None"
| "policy_check (Auth_post i p) = None"

text \<open>The events that reach a store, the pipeline or a file, as opposed to the policy
  check and the validators.\<close>

fun downstream :: "event \<Rightarrow> bool" where
  "downstream (Federation_api c) = True"
| "downstream (Assignment_api c) = True"
| "downstream (Authenticate_for_token rq a) = True"
| "downstream (Open_read p) = True"
| "downstream _ = False"

text \<open>The events an action adds to the trace of the world it starts in.\<close>

definition events_of :: "('s, 'a) action \<Rightarrow> 's world \<Rightarrow> event list" where
  "events_of m w = drop (length (trace w)) (trace (snd (m w)))"

section \<open>The identity provider registry\<close>

text \<open>
  Modelled from the spec: \<^verbatim>\<open>PROVIDERS.federation_api\<close> (the store behind create_idp
  and get_idp) is not part of this module. The specification describes it as a keyed
  store: "get/list/create/update/delete per entity type, keyed by id, raising NotFound
  when absent", where for identity providers "create fails with Conflict if id already
  exists, or if any entry of remote_ids collides with an existing IdP's remote_ids", and
  "create(id) then get(id) returns a record with the same id". The registry keeps the
  records in insertion order; the record kept for an id is the submitted one with its
  \<^verbatim>\<open>'id'\<close> set.
\<close>

definition remote_ids_of :: "json \<Rightarrow> json list" where
  "remote_ids_of r = (case py_get r ''remote_ids'' JNull of Inr (JList xs) \<Rightarrow> xs | _ \<Rightarrow> [])"

definition conflicts :: "string \<Rightarrow> json \<Rightarrow> (string \<times> json) list \<Rightarrow> bool" where
  "conflicts idp_id submitted reg \<longleftrightarrow>
     map_of reg idp_id \<noteq> None \<or>
     list_ex (\<lambda>kr. list_ex (\<lambda>x. x \<in> set (remote_ids_of (snd kr))) (remote_ids_of submitted)) reg"

definition spec_create_idp ::
  "string \<Rightarrow> json \<Rightarrow> (string \<times> json) list \<Rightarrow> (error + json) \<times> (string \<times> json) list" where
  "spec_create_idp idp_id submitted reg =
     (if conflicts idp_id submitted reg then (Inl Conflict, reg)
      else (case py_setitem submitted ''id'' (JStr idp_id) of
              Inl e \<Rightarrow> (Inl e, reg)
            | Inr r \<Rightarrow> (Inr r, reg @ [(idp_id, r)])))"

definition spec_get_idp :: "string \<Rightarrow> (string \<times> json) list \<Rightarrow> error + json" where
  "spec_get_idp idp_id reg = (case map_of reg idp_id of None \<Rightarrow> Inl NotFound | Some r \<Rightarrow> Inr r)"

text \<open>
  Modelled from the spec: a federation API whose create and get of identity providers
  are the two functions above. Every other call is answered by a store \<open>other\<close> with a
  state of its own, which the specification leaves to the storage layer.
\<close>

record 's registry =
  idps :: "(string \<times> json) list"
  rest :: 's

fun registry_api ::
  "(fed_call \<Rightarrow> 's \<Rightarrow> (error + json) \<times> 's) \<Rightarrow> fed_call \<Rightarrow> 's registry \<Rightarrow>
   (error + json) \<times> 's registry" where
  "registry_api other (Create_idp i submitted) st =
     (case spec_create_idp i submitted (idps st) of (r, reg) \<Rightarrow> (r, st\<lparr>idps := reg\<rparr>))"
| "registry_api other (Get_idp i) st = (spec_get_idp i (idps st), st)"
| "registry_api other c st = (case other c (rest st) of (r, s') \<Rightarrow> (r, st\<lparr>rest := s'\<rparr>))"

section \<open>What the presentation helpers are assumed to do\<close>

text \<open>
  \<^verbatim>\<open>_add_self_referential_link\<close> and \<^verbatim>\<open>filter_params\<close> belong to
  \<^verbatim>\<open>keystone.server.flask\<close>. Where a property of a returned representation depends on
  them, it is proved for helpers that keep to the following: the first gives a record a
  \<^verbatim>\<open>'links'\<close> dictionary with a \<^verbatim>\<open>'self'\<close> string and leaves every other field alone;
  the second leaves the public parameters of the class alone.
\<close>

definition adds_self_link :: "'s deps \<Rightarrow> resource \<Rightarrow> bool" where
  "adds_self_link D cls \<longleftrightarrow>
     (\<forall>d cn. \<exists>d' l u.
        add_self_referential_link D cls (JDict d) cn = Inr (JDict d') \<and>
        map_of d' ''links'' = Some (JDict l) \<and> map_of l ''self'' = Some (JStr u) \<and>
        (\<forall>k. k \<noteq> ''links'' \<longrightarrow> map_of d' k = map_of d k))"

definition keeps_public_parameters :: "'s deps \<Rightarrow> resource \<Rightarrow> bool" where
  "keeps_public_parameters D cls \<longleftrightarrow>
     (\<forall>d. \<exists>d'. filter_params D cls (JDict d) = Inr (JDict d') \<and>
        (\<forall>ps k. public_parameters cls = Some ps \<longrightarrow> k \<in> set ps \<longrightarrow>
                map_of d' k = map_of d k))"

section \<open>A small deployment\<close>

text \<open>
  Concrete collaborators on which the theorems below are exercised: a policy that
  allows everything, validators that accept a mapping with a list of rules and any other
  document, helpers that add a self link and drop the parameters that are not public,
  a pipeline that issues one token, and a metadata file that is missing. The federation
  API is left open.
\<close>

definition example_url :: "resource \<Rightarrow> string option \<Rightarrow> (string \<times> json) list \<Rightarrow> string" where
  "example_url cls collection_name d =
     ''http://keystone/v3/OS-FEDERATION/'' @
     (case collection_name of Some n \<Rightarrow> n | None \<Rightarrow> collection_key cls) @
     ''/'' @ (case map_of d ''id'' of Some (JStr i) \<Rightarrow> i | _ \<Rightarrow> [])"

definition example_self_link :: "resource \<Rightarrow> json \<Rightarrow> string option \<Rightarrow> error + json" where
  "example_self_link cls ref collection_name =
     (case ref of
        JDict d \<Rightarrow>
          Inr (JDict (dict_set d ''links''
                 (JDict [(''self'', JStr (example_url cls collection_name d))])))
      | _ \<Rightarrow> Inl TypeError)"

definition example_filter_params :: "resource \<Rightarrow> json \<Rightarrow> error + json" where
  "example_filter_params cls ref =
     (case public_parameters cls of
        None \<Rightarrow> Inr ref
      | Some ps \<Rightarrow>
          (case ref of
             JDict d \<Rightarrow> Inr (JDict (filter (\<lambda>kv. fst kv \<in> set ps) d))
           | _ \<Rightarrow> Inl AttributeError))"

definition example_wrap_collection ::
  "resource option \<Rightarrow> json \<Rightarrow> json option \<Rightarrow> string option \<Rightarrow> 's \<Rightarrow> error + json" where
  "example_wrap_collection cls refs hints collection_name s =
     Inr (JDict [(case collection_name of
                    Some n \<Rightarrow> n
                  | None \<Rightarrow> (case cls of Some c \<Rightarrow> collection_key c | None \<Rightarrow> []), refs),
                 (''links'', JDict [(''self'', JStr ''http://keystone/v3''),
                                    (''previous'', JNull), (''next'', JNull)])])"

definition example_token :: webob_response where
  "example_token =
     \<lparr>wr_body = ''{token}'', wr_status_code = 201,
      wr_headers = [(''Content-Type'', ''application/json''), (''Vary'', ''X-Auth-Token''),
                    (''X-Subject-Token'', ''gAAAAAB'')]\<rparr>"

definition example_deps :: "(fed_call \<Rightarrow> 's \<Rightarrow> (error + json) \<times> 's) \<Rightarrow> 's deps" where
  "example_deps fed =
     \<lparr>relay_state_prefix = JStr ''ss:mem:'',
      idp_metadata_path = ''/etc/keystone/saml2_idp_metadata.xml'',
      AUTH_CONTEXT_ENV = ''KEYSTONE_AUTH_CONTEXT'',
      enforce_call = (\<lambda>act filters req s. None),
      lazy_validate = (\<lambda>sch x. None),
      validate_mapping_structure =
        (\<lambda>x. case py_getitem x ''rules'' of Inr (JList rs) \<Rightarrow> None | _ \<Rightarrow> Some ValidationError),
      normalize_dict = (\<lambda>x. case x of JDict d \<Rightarrow> Inr x | _ \<Rightarrow> Inl AttributeError),
      add_self_referential_link = example_self_link,
      filter_params = example_filter_params,
      wrap_collection = example_wrap_collection,
      build_driver_hints = (\<lambda>cls req filters. JList []),
      base_url = (\<lambda>p. case p of JStr s \<Rightarrow> Inr (''http://keystone/v3'' @ s) | _ \<Rightarrow> Inl AttributeError),
      str_of = (\<lambda>v. case v of JStr s \<Rightarrow> s | _ \<Rightarrow> ''?''),
      federation_api = fed,
      assignment_api = (\<lambda>c s. (Inr [], s)),
      authenticate_for_token = (\<lambda>rq auth s. (Inr example_token, s)),
      open_read = (\<lambda>path s. Inl (IOError ''No such file or directory'')),
      default_headers = (\<lambda>body status. [(''Content-Type'', ''text/html; charset=utf-8'')])\<rparr>"

text \<open>A store that knows nothing, for the calls the registry does not answer itself.\<close>

definition no_store :: "fed_call \<Rightarrow> unit \<Rightarrow> (error + json) \<times> unit" where
  "no_store c s = (Inl NotFound, s)"

definition example_request :: "json \<Rightarrow> request" where
  "example_request body =
     \<lparr>request_body_json = body,
      environ = [(''REQUEST_METHOD'', JStr ''PUT''),
                 (''KEYSTONE_AUTH_CONTEXT'',
                    JDict [(''user_id'', JStr ''u1''), (''group_ids'', JList [JStr ''g1''])])]\<rparr>"

text \<open>A world in which nothing has been called yet.\<close>

definition fresh :: "'s \<Rightarrow> 's world" where
  "fresh s = \<lparr>trace = [], outside = s\<rparr>"

text \<open>The collaborators \<open>D\<close>, except that the assignment lookup \<open>c\<close> made in state \<open>s\<close>
  has the outcome \<open>r\<close>.\<close>

definition answering ::
  "'s deps \<Rightarrow> asg_call \<Rightarrow> 's \<Rightarrow> (error + json list) \<times> 's \<Rightarrow> 's deps" where
  "answering D c s r =
     D\<lparr>assignment_api := (\<lambda>c' s'. if c' = c \<and> s' = s then r else assignment_api D c' s')\<rparr>"

text \<open>The values that the items of a header list give to a name exactly as written, in
  order.\<close>

definition values_named :: "(string \<times> string) list \<Rightarrow> string \<Rightarrow> string list" where
  "values_named hs n = map snd (filter (\<lambda>h. fst h = n) hs)"

text \<open>Assignment lookups with fixed outcomes: one for the two per-user lookups, one for
  the two per-group lookups.\<close>

definition lookups ::
  "error + json list \<Rightarrow> error + json list \<Rightarrow> asg_call \<Rightarrow> 's \<Rightarrow> (error + json list) \<times> 's" where
  "lookups for_user for_groups c s =
     (case c of
        List_projects_for_user u \<Rightarrow> (for_user, s)
      | List_projects_for_groups g \<Rightarrow> (for_groups, s)
      | List_domains_for_user u \<Rightarrow> (for_user, s)
      | List_domains_for_groups g \<Rightarrow> (for_groups, s))"

text \<open>The collaborators \<open>D\<close> with a metadata file that opens but whose bytes do not
  decode: reading it raises UnicodeDecodeError, which is a ValueError and no IOError.\<close>

definition undecodable :: "'s deps \<Rightarrow> 's deps" where
  "undecodable D = D\<lparr>open_read := (\<lambda>path s. Inl UnicodeDecodeError)\<rparr>"

text \<open>The collaborators \<open>D\<close> under a policy that forbids every action.\<close>

definition forbidding :: "'s deps \<Rightarrow> 's deps" where
  "forbidding D = D\<lparr>enforce_call := (\<lambda>act filters req s. Some Forbidden)\<rparr>"

section \<open>Notions used in the statements\<close>

text \<open>An action only ever adds to the trace.\<close>

definition grows :: "('s, 'a) action \<Rightarrow> bool" where
  "grows m \<longleftrightarrow> (\<forall>w. \<exists>es. trace (snd (m w)) = trace w @ es)"

text \<open>
  The user lookup \<open>c\<close> of an aggregation, for the \<^verbatim>\<open>user_id\<close> \<open>uid\<close> of the auth context,
  started in state \<open>s\<close>: it lets the handler go on when it is not made at all, returns a
  list, or raises UserNotFound; and the state it leaves.
\<close>

definition user_lookup_passes :: "'s deps \<Rightarrow> asg_call \<Rightarrow> json \<Rightarrow> 's \<Rightarrow> bool" where
  "user_lookup_passes D c uid s \<longleftrightarrow>
     (truthy uid \<longrightarrow>
        (case fst (assignment_api D c s) of Inl e \<Rightarrow> e = UserNotFound | Inr refs \<Rightarrow> True))"

definition after_user_lookup :: "'s deps \<Rightarrow> asg_call \<Rightarrow> json \<Rightarrow> 's \<Rightarrow> 's" where
  "after_user_lookup D c uid s = (if truthy uid then snd (assignment_api D c s) else s)"

section \<open>Properties of the combination\<close>



lemma dict_set_map_of: "map_of (dict_set d k v) = (map_of d)(k \<mapsto> v)"
  by (induction d) auto









section \<open>Sequencing\<close>

lemma then_do_ret [simp]: "then_do (ret x) f w = f x w"
  by (simp add: then_do_def ret_def)

lemma then_do_lift_Inr [simp]: "then_do (lift (Inr x)) f w = f x w"
  by (simp add: then_do_def lift_def)

lemma then_do_lift_Inl [simp]: "then_do (lift (Inl e)) f w = (Inl e, w)"
  by (simp add: then_do_def lift_def)

lemma trace_emit [simp]: "trace (emit ev w) = trace w @ [ev]"
  by (simp add: emit_def)

lemma outside_emit [simp]: "outside (emit ev w) = outside w"
  by (simp add: emit_def)

lemmas run_defs =
  then_do_def ret_def lift_def ENFORCER_enforce_call_def validation_lazy_validate_def
  utils_validate_mapping_structure_def PROVIDERS_federation_api_def
  PROVIDERS_assignment_api_def compat_controller_authenticate_for_token_def

text \<open>The small deployment, field by field.\<close>

lemma example_deps_sel [simp]:
  "relay_state_prefix (example_deps fed) = JStr ''ss:mem:''"
  "idp_metadata_path (example_deps fed) = ''/etc/keystone/saml2_idp_metadata.xml''"
  "AUTH_CONTEXT_ENV (example_deps fed) = ''KEYSTONE_AUTH_CONTEXT''"
  "enforce_call (example_deps fed) = (\<lambda>act filters req s. None)"
  "lazy_validate (example_deps fed) = (\<lambda>sch x. None)"
  "validate_mapping_structure (example_deps fed) =
     (\<lambda>x. case py_getitem x ''rules'' of Inr (JList rs) \<Rightarrow> None | _ \<Rightarrow> Some ValidationError)"
  "normalize_dict (example_deps fed) = (\<lambda>x. case x of JDict d \<Rightarrow> Inr x | _ \<Rightarrow> Inl AttributeError)"
  "add_self_referential_link (example_deps fed) = example_self_link"
  "filter_params (example_deps fed) = example_filter_params"
  "wrap_collection (example_deps fed) = example_wrap_collection"
  "build_driver_hints (example_deps fed) = (\<lambda>cls req filters. JList [])"
  "base_url (example_deps fed) =
     (\<lambda>p. case p of JStr s \<Rightarrow> Inr (''http://keystone/v3'' @ s) | _ \<Rightarrow> Inl AttributeError)"
  "str_of (example_deps fed) = (\<lambda>v. case v of JStr s \<Rightarrow> s | _ \<Rightarrow> ''?'')"
  "federation_api (example_deps fed) = fed"
  "assignment_api (example_deps fed) = (\<lambda>c s. (Inr [], s))"
  "authenticate_for_token (example_deps fed) = (\<lambda>rq auth s. (Inr example_token, s))"
  "open_read (example_deps fed) = (\<lambda>path s. Inl (IOError ''No such file or directory''))"
  "default_headers (example_deps fed) =
     (\<lambda>body status. [(''Content-Type'', ''text/html; charset=utf-8'')])"
  by (simp_all add: example_deps_def)

lemma example_request_sel [simp]:
  "request_body_json (example_request body) = body"
  "environ (example_request body) =
     [(''REQUEST_METHOD'', JStr ''PUT''),
      (''KEYSTONE_AUTH_CONTEXT'',
         JDict [(''user_id'', JStr ''u1''), (''group_ids'', JList [JStr ''g1''])])]"
  by (simp_all add: example_request_def)

lemma fresh_sel [simp]: "trace (fresh s) = []" "outside (fresh s) = s"
  by (simp_all add: fresh_def)

section \<open>The auth payload\<close>

lemma auth_data_distinct:
  "protocol_id \<noteq> ''methods'' \<Longrightarrow>
   auth_data idp_id protocol_id =
     JDict [(''identity'', JDict [(''methods'', JList [JStr protocol_id]),
              (protocol_id, JDict [(''identity_provider'', JStr idp_id),
                                   (''protocol'', JStr protocol_id)])])]"
  by (auto simp: auth_data_def)

lemma auth_data_methods:
  "auth_data idp_id ''methods'' =
     JDict [(''identity'', JDict [(''methods'', JDict [(''identity_provider'', JStr idp_id),
                                   (''protocol'', JStr ''methods'')])])]"
  by (simp add: auth_data_def)

lemma auth_events:
  "events_of (OSFederationAuthResource_auth D req idp_id protocol_id) w =
     [Authenticate_for_token (Request (environ req)) (auth_data idp_id protocol_id)]"
  by (simp add: events_of_def OSFederationAuthResource_auth_def then_do_def ret_def
      compat_controller_authenticate_for_token_def construct_webob_request_def
      split: prod.splits sum.splits)

text \<open>
  Claim C1, amended. \<^verbatim>\<open>_auth\<close> makes exactly one call on the token pipeline, with the
  request built from the unchanged environment and the payload \<open>auth_data\<close>. For every
  \<open>idp_id\<close> and every \<open>protocol_id\<close> other than \<^verbatim>\<open>'methods'\<close> that payload is
  \<^verbatim>\<open>{identity: {methods: [protocol_id], protocol_id: {identity_provider: idp_id,
  protocol: protocol_id}}}\<close>, so \<^verbatim>\<open>identity.methods\<close> is \<^verbatim>\<open>[protocol_id]\<close>. For the
  protocol id \<^verbatim>\<open>'methods'\<close> the two keys of the display are one key: the payload is
  \<^verbatim>\<open>{identity: {methods: {identity_provider: idp_id, protocol: 'methods'}}}\<close>.
\<close>

theorem auth_payload_shape:
  "events_of (OSFederationAuthResource_auth D req idp_id protocol_id) w =
     [Authenticate_for_token (Request (environ req)) (auth_data idp_id protocol_id)] \<and>
   (protocol_id \<noteq> ''methods'' \<longrightarrow>
      auth_data idp_id protocol_id =
        JDict [(''identity'', JDict [(''methods'', JList [JStr protocol_id]),
                 (protocol_id, JDict [(''identity_provider'', JStr idp_id),
                                      (''protocol'', JStr protocol_id)])])] \<and>
      and_then (py_getitem (auth_data idp_id protocol_id) ''identity'')
        (\<lambda>i. py_getitem i ''methods'') = Inr (JList [JStr protocol_id]) \<and>
      and_then (py_getitem (auth_data idp_id protocol_id) ''identity'')
        (\<lambda>i. py_getitem i protocol_id) =
          Inr (JDict [(''identity_provider'', JStr idp_id), (''protocol'', JStr protocol_id)])) \<and>
   (protocol_id = ''methods'' \<longrightarrow>
      auth_data idp_id protocol_id =
        JDict [(''identity'', JDict [(''methods'',
                 JDict [(''identity_provider'', JStr idp_id),
                        (''protocol'', JStr ''methods'')])])])"
  using auth_events [of D req idp_id protocol_id w]
  by (auto simp: auth_data_distinct auth_data_methods and_then_def)

text \<open>For \<^verbatim>\<open>idp1\<close> and \<^verbatim>\<open>saml2\<close>: \<^verbatim>\<open>identity.methods\<close> is \<^verbatim>\<open>['saml2']\<close> and
  \<^verbatim>\<open>identity.saml2.identity_provider\<close> is \<^verbatim>\<open>'idp1'\<close>.\<close>

theorem auth_payload_shape_witness:
  "and_then (py_getitem (auth_data ''idp1'' ''saml2'') ''identity'')
     (\<lambda>i. py_getitem i ''methods'') = Inr (JList [JStr ''saml2'']) \<and>
   and_then (and_then (py_getitem (auth_data ''idp1'' ''saml2'') ''identity'')
     (\<lambda>i. py_getitem i ''saml2'')) (\<lambda>m. py_getitem m ''identity_provider'') = Inr (JStr ''idp1'') \<and>
   events_of (OSFederationAuthResource_auth (example_deps no_store) (example_request JNull)
                ''idp1'' ''saml2'') (fresh ()) =
     [Authenticate_for_token (Request (environ (example_request JNull)))
        (auth_data ''idp1'' ''saml2'')]"
  using auth_payload_shape [of "example_deps no_store" "example_request JNull" "''idp1''" "''saml2''" "fresh ()"]
  by (simp add: and_then_def)

text \<open>Claim C1 as stated fails for the protocol id \<^verbatim>\<open>'methods'\<close>: \<^verbatim>\<open>identity.methods\<close>
  is then the protocol's dictionary, not the list \<^verbatim>\<open>['methods']\<close>.\<close>

theorem auth_payload_methods_counterexample:
  "py_getitem (auth_data ''idp1'' ''methods'') ''identity'' =
     Inr (JDict [(''methods'',
            JDict [(''identity_provider'', JStr ''idp1''), (''protocol'', JStr ''methods'')])]) \<and>
   py_getitem (JDict [(''methods'',
            JDict [(''identity_provider'', JStr ''idp1''), (''protocol'', JStr ''methods'')])])
     ''methods'' \<noteq> Inr (JList [JStr ''methods''])"
  by (simp add: auth_data_def)

section \<open>The relayed response\<close>

lemma lower_char_idem [simp]: "lower_char (lower_char c) = lower_char c"
  by (simp add: lower_char_def)

lemma lower_idem [simp]: "lower (lower s) = lower s"
  by (simp add: lower_def)

lemma values_named_Nil [simp]: "values_named [] n = []"
  by (simp add: values_named_def)

lemma values_named_Cons [simp]:
  "values_named (h # hs) n = (if fst h = n then snd h # values_named hs n else values_named hs n)"
  by (simp add: values_named_def)

lemma values_named_append [simp]:
  "values_named (xs @ ys) n = values_named xs n @ values_named ys n"
  by (simp add: values_named_def)

lemma values_named_items:
  "values_named (map (\<lambda>v. (k, v)) vs) n = (if k = n then vs else [])"
  by (induction vs) auto

lemma values_named_absent:
  "n \<notin> fst ` set d \<Longrightarrow>
   values_named (concat (map (\<lambda>(k, vs). map (\<lambda>v. (k, v)) vs) d)) n = []"
  by (induction d) (auto simp: values_named_items)

lemma add_to_lists_keys:
  "fst ` set (add_to_lists acc k v) = insert k (fst ` set acc)"
  by (induction acc) auto

lemma add_to_lists_distinct:
  "distinct (map fst acc) \<Longrightarrow> distinct (map fst (add_to_lists acc k v))"
  by (induction acc) (auto simp: add_to_lists_keys)

lemma add_to_lists_values:
  "distinct (map fst acc) \<Longrightarrow>
   values_named (concat (map (\<lambda>(k, vs). map (\<lambda>v. (k, v)) vs) (add_to_lists acc k v))) n =
   values_named (concat (map (\<lambda>(k, vs). map (\<lambda>v. (k, v)) vs) acc)) n @ (if k = n then [v] else [])"
  by (induction acc) (auto simp: values_named_items values_named_absent)

lemma dict_of_lists_from_values:
  "distinct (map fst acc) \<Longrightarrow>
   values_named (concat (map (\<lambda>(k, vs). map (\<lambda>v. (k, v)) vs) (dict_of_lists_from acc hs))) n =
   values_named (concat (map (\<lambda>(k, vs). map (\<lambda>v. (k, v)) vs) acc)) n @
   map snd (filter (\<lambda>h. lower (fst h) = n) hs)"
proof (induction hs arbitrary: acc)
  case Nil
  then show ?case by simp
next
  case (Cons h hs)
  obtain k v where h: "h = (k, v)" by (cases h)
  have "distinct (map fst (add_to_lists acc (lower k) v))"
    using Cons.prems by (rule add_to_lists_distinct)
  from Cons.IH [OF this] show ?case
    using Cons.prems by (simp add: h add_to_lists_values)
qed

lemma dict_of_lists_from_keys:
  "fst ` set (dict_of_lists_from acc hs) = fst ` set acc \<union> (\<lambda>h. lower (fst h)) ` set hs"
proof (induction hs arbitrary: acc)
  case Nil
  then show ?case by simp
next
  case (Cons h hs)
  obtain k v where h: "h = (k, v)" by (cases h)
  show ?case
    using Cons.IH [of "add_to_lists acc (lower k) v"] by (simp add: h add_to_lists_keys)
qed

lemma getlist_lower_keys:
  "\<forall>k \<in> fst ` set d. lower k = k \<Longrightarrow>
   headers_getlist (concat (map (\<lambda>(k, vs). map (\<lambda>v. (k, v)) vs) d)) n =
   values_named (concat (map (\<lambda>(k, vs). map (\<lambda>v. (k, v)) vs) d)) (lower n)"
proof (induction d)
  case Nil
  then show ?case by (simp add: headers_getlist_def)
next
  case (Cons p d)
  obtain k vs where p: "p = (k, vs)" by (cases p)
  with Cons.prems have k: "lower k = k" by simp
  have here: "map snd (filter (\<lambda>t. lower (fst t) = lower n) (map (\<lambda>v. (k, v)) vs)) =
              (if k = lower n then vs else [])"
    using k by (induction vs) auto
  from Cons show ?case
    by (simp add: p headers_getlist_def values_named_items here)
qed

lemma headers_getlist_append:
  "headers_getlist (xs @ ys) n = headers_getlist xs n @ headers_getlist ys n"
  by (simp add: headers_getlist_def)

lemma headers_getlist_dict_of_lists:
  "headers_getlist (concat (map (\<lambda>(k, vs). map (\<lambda>v. (k, v)) vs) (dict_of_lists ws))) n =
   headers_getlist ws n"
proof -
  have keys: "\<forall>k \<in> fst ` set (dict_of_lists ws). lower k = k"
    by (auto simp: dict_of_lists_def dict_of_lists_from_keys)
  have "headers_getlist (concat (map (\<lambda>(k, vs). map (\<lambda>v. (k, v)) vs) (dict_of_lists ws))) n =
        values_named (concat (map (\<lambda>(k, vs). map (\<lambda>v. (k, v)) vs) (dict_of_lists ws))) (lower n)"
    by (rule getlist_lower_keys [OF keys])
  also have "\<dots> = map snd (filter (\<lambda>h. lower (fst h) = lower n) ws)"
    using dict_of_lists_from_values [of "[]" ws "lower n"] by (simp add: dict_of_lists_def)
  also have "\<dots> = headers_getlist ws n"
    by (simp add: headers_getlist_def)
  finally show ?thesis .
qed

lemma set_dict_of_lists:
  "set (concat (map (\<lambda>(k, vs). map (\<lambda>v. (k, v)) vs) (dict_of_lists ws))) =
   (\<lambda>h. (lower (fst h), snd h)) ` set ws"
proof -
  let ?flat = "concat (map (\<lambda>(k, vs). map (\<lambda>v. (k, v)) vs) (dict_of_lists ws))"
  have mem: "(m, v) \<in> set ?flat \<longleftrightarrow> v \<in> set (values_named ?flat m)" for m v
    by (force simp: values_named_def)
  have vals: "values_named ?flat m = map snd (filter (\<lambda>h. lower (fst h) = m) ws)" for m
    using dict_of_lists_from_values [of "[]" ws m] by (simp add: dict_of_lists_def)
  show ?thesis
  proof (intro equalityI subsetI)
    fix x assume "x \<in> set ?flat"
    then have "snd x \<in> set (values_named ?flat (fst x))"
      using mem [of "fst x" "snd x"] by simp
    then show "x \<in> (\<lambda>h. (lower (fst h), snd h)) ` set ws"
      unfolding vals by (cases x) force
  next
    fix x assume "x \<in> (\<lambda>h. (lower (fst h), snd h)) ` set ws"
    then obtain h where "h \<in> set ws" "x = (lower (fst h), snd h)" by blast
    then have "snd x \<in> set (values_named ?flat (fst x))"
      unfolding vals by force
    then show "x \<in> set ?flat"
      using mem [of "fst x" "snd x"] by simp
  qed
qed

lemma lower_examples [simp]:
  "lower ''Content-Type'' = ''content-type''"
  "lower ''Vary'' = ''vary''"
  "lower ''X-Subject-Token'' = ''x-subject-token''"
  "lower ''content-type'' = ''content-type''"
  "lower ''vary'' = ''vary''"
  "lower ''x-subject-token'' = ''x-subject-token''"
  by code_simp+

lemma example_response_headers:
  "fr_headers (to_flask_response (example_deps fed) example_token) =
     [(''Content-Type'', ''text/html; charset=utf-8''), (''content-type'', ''application/json''),
      (''vary'', ''X-Auth-Token''), (''x-subject-token'', ''gAAAAAB'')]"
  by (simp add: to_flask_response_def make_response_def headers_extend_def dict_of_lists_def
      example_token_def)


text \<open>
  Claim C4, amended. Whatever response the token pipeline returns, the response of
  \<^verbatim>\<open>_auth\<close> has its status code and its body. Its headers are the headers Flask gives a
  new response together with the pipeline's headers, each under its name in lower
  case: for every header name, compared without regard to case, the values are Flask's
  own followed by the pipeline's values in the pipeline's order. The pipeline's headers
  are added, they replace nothing: a name that Flask has set already keeps Flask's value
  in front.
\<close>

theorem auth_response_relayed:
  assumes "authenticate_for_token D (construct_webob_request req) (auth_data idp_id protocol_id)
             (outside w) = (Inr r, s')"
  shows "\<exists>resp. fst (OSFederationAuthResource_auth D req idp_id protocol_id w) = Inr (Response resp) \<and>
           fr_status_code resp = wr_status_code r \<and>
           fr_data resp = wr_body r \<and>
           (\<forall>n. headers_getlist (fr_headers resp) n =
                  headers_getlist (default_headers D (wr_body r) (wr_status_code r)) n @
                  headers_getlist (wr_headers r) n) \<and>
           set (fr_headers resp) =
             set (default_headers D (wr_body r) (wr_status_code r)) \<union>
             (\<lambda>h. (lower (fst h), snd h)) ` set (wr_headers r)"
proof -
  let ?resp = "to_flask_response D r"
  have res: "fst (OSFederationAuthResource_auth D req idp_id protocol_id w) = Inr (Response ?resp)"
    using assms
    by (simp add: OSFederationAuthResource_auth_def then_do_def ret_def
        compat_controller_authenticate_for_token_def)
  have st: "fr_status_code ?resp = wr_status_code r" and bd: "fr_data ?resp = wr_body r"
    by (simp_all add: to_flask_response_def make_response_def)
  have hd: "fr_headers ?resp =
      default_headers D (wr_body r) (wr_status_code r) @
      concat (map (\<lambda>(k, vs). map (\<lambda>v. (k, v)) vs) (dict_of_lists (wr_headers r)))"
    by (simp add: to_flask_response_def make_response_def headers_extend_def)
  have vals: "\<forall>n. headers_getlist (fr_headers ?resp) n =
                  headers_getlist (default_headers D (wr_body r) (wr_status_code r)) n @
                  headers_getlist (wr_headers r) n"
    unfolding hd by (simp add: headers_getlist_append headers_getlist_dict_of_lists)
  have items: "set (fr_headers ?resp) =
             set (default_headers D (wr_body r) (wr_status_code r)) \<union>
             (\<lambda>h. (lower (fst h), snd h)) ` set (wr_headers r)"
    unfolding hd by (simp add: set_dict_of_lists del: set_concat)
  from res st bd vals items show ?thesis by blast
qed

text \<open>The token of the small deployment comes back with its status, body and header
  values, the Content-Type after the one of Flask.\<close>

theorem auth_response_relayed_witness:
  "\<exists>resp. fst (OSFederationAuthResource_auth (example_deps no_store) (example_request JNull)
                 ''idp1'' ''saml2'' (fresh ())) = Inr (Response resp) \<and>
      fr_status_code resp = 201 \<and> fr_data resp = ''{token}'' \<and>
      headers_getlist (fr_headers resp) ''X-Subject-Token'' = [''gAAAAAB''] \<and>
      headers_getlist (fr_headers resp) ''Vary'' = [''X-Auth-Token''] \<and>
      headers_getlist (fr_headers resp) ''Content-Type'' =
        [''text/html; charset=utf-8'', ''application/json'']"
proof -
  have "authenticate_for_token (example_deps no_store)
          (construct_webob_request (example_request JNull)) (auth_data ''idp1'' ''saml2'')
          (outside (fresh ())) = (Inr example_token, ())"
    by simp
  from auth_response_relayed [OF this] obtain resp where
    res: "fst (OSFederationAuthResource_auth (example_deps no_store) (example_request JNull)
                 ''idp1'' ''saml2'' (fresh ())) = Inr (Response resp)"
    and st: "fr_status_code resp = wr_status_code example_token"
    and bd: "fr_data resp = wr_body example_token"
    and hs: "\<forall>n. headers_getlist (fr_headers resp) n =
               headers_getlist (default_headers (example_deps no_store) (wr_body example_token)
                                  (wr_status_code example_token)) n @
               headers_getlist (wr_headers example_token) n"
    by blast
  have "headers_getlist (fr_headers resp) ''X-Subject-Token'' = [''gAAAAAB'']"
       "headers_getlist (fr_headers resp) ''Vary'' = [''X-Auth-Token'']"
       "headers_getlist (fr_headers resp) ''Content-Type'' =
          [''text/html; charset=utf-8'', ''application/json'']"
    using hs [rule_format, of "''X-Subject-Token''"] hs [rule_format, of "''Vary''"]
          hs [rule_format, of "''Content-Type''"]
    by (simp_all add: headers_getlist_def example_token_def)
  with res st bd show ?thesis
    by (simp add: example_token_def)
qed

text \<open>Claim C4 as stated fails in the small deployment: the headers of the response
  are not the headers of the pipeline. The names have changed to lower case, and
  Content-Type has two values, of which the first is Flask's \<^verbatim>\<open>text/html\<close> and not the
  pipeline's \<^verbatim>\<open>application/json\<close>.\<close>

theorem auth_response_headers_counterexample:
  "fst (OSFederationAuthResource_auth (example_deps no_store) (example_request JNull)
          ''idp1'' ''saml2'' (fresh ())) =
     Inr (Response (to_flask_response (example_deps no_store) example_token)) \<and>
   wr_headers example_token =
     [(''Content-Type'', ''application/json''), (''Vary'', ''X-Auth-Token''),
      (''X-Subject-Token'', ''gAAAAAB'')] \<and>
   fr_headers (to_flask_response (example_deps no_store) example_token) =
     [(''Content-Type'', ''text/html; charset=utf-8''), (''content-type'', ''application/json''),
      (''vary'', ''X-Auth-Token''), (''x-subject-token'', ''gAAAAAB'')] \<and>
   headers_getlist (wr_headers example_token) ''Content-Type'' = [''application/json''] \<and>
   headers_getlist (fr_headers (to_flask_response (example_deps no_store) example_token))
     ''Content-Type'' = [''text/html; charset=utf-8'', ''application/json'']"
  by (simp add: OSFederationAuthResource_auth_def then_do_def ret_def
      compat_controller_authenticate_for_token_def example_response_headers
      headers_getlist_def)
     (simp add: example_token_def)

section \<open>The metadata file\<close>

lemma headers_getlist_setitem:
  "headers_getlist (headers_setitem hs k v) k = [v]"
  by (induction hs) (auto simp: headers_getlist_def filter_empty_conv)

lemma undecodable_sel [simp]:
  "open_read (undecodable D) = (\<lambda>path s. Inl UnicodeDecodeError)"
  "idp_metadata_path (undecodable D) = idp_metadata_path D"
  by (simp_all add: undecodable_def)

text \<open>
  Claim C9, amended. The metadata operation reads the configured path. When the read
  raises an IOError, the operation raises MetadataFileError with that reason, and not an
  IOError. Any other exception of the read, such as the UnicodeDecodeError of a file
  whose bytes do not decode, leaves the operation as it is. When the read succeeds, the
  response has the contents as its body, status 200 and the single Content-Type
  \<^verbatim>\<open>text/xml\<close>.
\<close>

theorem metadata_get_result:
  "(open_read D (idp_metadata_path D) (outside w) = Inl (IOError reason) \<longrightarrow>
      fst (SAML2MetadataResource_get D req w) = Inl (MetadataFileError reason) \<and>
      (\<forall>x. fst (SAML2MetadataResource_get D req w) \<noteq> Inl (IOError x))) \<and>
   (open_read D (idp_metadata_path D) (outside w) = Inl e \<and> (\<forall>x. e \<noteq> IOError x) \<longrightarrow>
      fst (SAML2MetadataResource_get D req w) = Inl e) \<and>
   (open_read D (idp_metadata_path D) (outside w) = Inr contents \<longrightarrow>
      (\<exists>resp. fst (SAML2MetadataResource_get D req w) = Inr (Response resp) \<and>
         fr_data resp = contents \<and> fr_status_code resp = 200 \<and>
         headers_getlist (fr_headers resp) ''Content-Type'' = [''text/xml''])) \<and>
   events_of (SAML2MetadataResource_get D req) w = [Open_read (idp_metadata_path D)]"
  by (auto simp: SAML2MetadataResource_get_def make_response_def OK_def events_of_def
      headers_getlist_setitem split: sum.splits error.splits)

text \<open>In the small deployment the file is missing and the operation raises
  MetadataFileError; an undecodable file raises UnicodeDecodeError; a readable file is
  answered with 200 and \<^verbatim>\<open>text/xml\<close>.\<close>

theorem metadata_get_result_witness:
  "fst (SAML2MetadataResource_get (example_deps no_store) (example_request JNull) (fresh ())) =
     Inl (MetadataFileError ''No such file or directory'') \<and>
   fst (SAML2MetadataResource_get (undecodable (example_deps no_store)) (example_request JNull)
          (fresh ())) = Inl UnicodeDecodeError \<and>
   (\<exists>resp. fst (SAML2MetadataResource_get
                  ((example_deps no_store)\<lparr>open_read := \<lambda>path s. Inr ''<EntityDescriptor/>''\<rparr>)
                  (example_request JNull) (fresh ())) = Inr (Response resp) \<and>
      fr_data resp = ''<EntityDescriptor/>'' \<and> fr_status_code resp = 200 \<and>
      headers_getlist (fr_headers resp) ''Content-Type'' = [''text/xml''])"
  using metadata_get_result
          [where D = "example_deps no_store" and w = "fresh ()"
             and reason = "''No such file or directory''" and req = "example_request JNull"]
        metadata_get_result
          [where D = "undecodable (example_deps no_store)" and w = "fresh ()"
             and e = UnicodeDecodeError and req = "example_request JNull"]
        metadata_get_result
          [where D = "(example_deps no_store)\<lparr>open_read := \<lambda>path s. Inr ''<EntityDescriptor/>''\<rparr>"
             and w = "fresh ()" and req = "example_request JNull"
             and contents = "''<EntityDescriptor/>''"]
  by simp

text \<open>Claim C9 as stated fails for a metadata file that cannot be read because its
  bytes do not decode: the operation ends with UnicodeDecodeError, not with
  MetadataFileError.\<close>

theorem metadata_undecodable_counterexample:
  "open_read (undecodable (example_deps no_store))
     (idp_metadata_path (undecodable (example_deps no_store))) () = Inl UnicodeDecodeError \<and>
   SAML2MetadataResource_get (undecodable (example_deps no_store)) (example_request JNull)
     (fresh ()) =
     (Inl UnicodeDecodeError,
      \<lparr>trace = [Open_read ''/etc/keystone/saml2_idp_metadata.xml''], outside = ()\<rparr>)"
  by (simp add: SAML2MetadataResource_get_def emit_def fresh_def)

section \<open>GET and POST of the federated auth endpoint\<close>

text \<open>
  Claim C10. For every identity provider id, protocol id and request, the GET handler
  and the POST handler are the same function: both are \<^verbatim>\<open>_auth\<close> on the same
  arguments, so they answer alike in every world.
\<close>

theorem auth_get_post_same:
  "OSFederationAuthResource_get D req idp_id protocol_id =
     OSFederationAuthResource_post D req idp_id protocol_id \<and>
   OSFederationAuthResource_get D req idp_id protocol_id =
     OSFederationAuthResource_auth D req idp_id protocol_id \<and>
   handle D req (Auth_get idp_id protocol_id) w = handle D req (Auth_post idp_id protocol_id) w"
  by (simp add: OSFederationAuthResource_get_def OSFederationAuthResource_post_def)

section \<open>Writing a mapping\<close>

lemma mapping_put_cases:
  "(\<exists>e. MappingResource_put D req mapping_id w =
          (Inl e, w\<lparr>trace := trace w @ [Enforce ''identity:create_mapping'' None]\<rparr>)) \<or>
   (\<exists>doc e. and_then (body_member req ''mapping'') (normalize_dict D) = Inr doc \<and>
       validate_mapping_structure D doc = Some e \<and>
       MappingResource_put D req mapping_id w =
          (Inl e, w\<lparr>trace := trace w @ [Enforce ''identity:create_mapping'' None,
                                         Validate_mapping_structure doc]\<rparr>)) \<or>
   (\<exists>doc. and_then (body_member req ''mapping'') (normalize_dict D) = Inr doc \<and>
       validate_mapping_structure D doc = None \<and>
       events_of (MappingResource_put D req mapping_id) w =
          [Enforce ''identity:create_mapping'' None, Validate_mapping_structure doc,
           Federation_api (Create_mapping mapping_id doc)])"
  by (auto simp: MappingResource_put_def run_defs and_then_def events_of_def emit_def
      split: option.splits sum.splits prod.splits)

lemma mapping_patch_cases:
  "(\<exists>e. MappingResource_patch D req mapping_id w =
          (Inl e, w\<lparr>trace := trace w @ [Enforce ''identity:update_mapping'' None]\<rparr>)) \<or>
   (\<exists>doc e. and_then (body_member req ''mapping'') (normalize_dict D) = Inr doc \<and>
       validate_mapping_structure D doc = Some e \<and>
       MappingResource_patch D req mapping_id w =
          (Inl e, w\<lparr>trace := trace w @ [Enforce ''identity:update_mapping'' None,
                                         Validate_mapping_structure doc]\<rparr>)) \<or>
   (\<exists>doc. and_then (body_member req ''mapping'') (normalize_dict D) = Inr doc \<and>
       validate_mapping_structure D doc = None \<and>
       events_of (MappingResource_patch D req mapping_id) w =
          [Enforce ''identity:update_mapping'' None, Validate_mapping_structure doc,
           Federation_api (Update_mapping mapping_id doc)])"
  by (auto simp: MappingResource_patch_def run_defs and_then_def events_of_def emit_def
      split: option.splits sum.splits prod.splits)

lemma events_of_result:
  "m w = (r, w\<lparr>trace := trace w @ es\<rparr>) \<Longrightarrow> events_of m w = es"
  by (simp add: events_of_def)

text \<open>
  Claim C5. On a mapping create and on a mapping update, whenever the store is called
  at all, the call is the create (or update) of the submitted document after
  normalization, that document was given to \<^verbatim>\<open>validate_mapping_structure\<close> before and
  passed. When the validator raises on the document, the operation ends with the
  validator's exception (a ValidationError when it raises one), the store is never
  called, and the state behind the collaborators is what it was.
\<close>

theorem mapping_validated_before_write:
  "(Federation_api c \<in> set (events_of (MappingResource_put D req mapping_id) w) \<longrightarrow>
      (\<exists>doc. and_then (body_member req ''mapping'') (normalize_dict D) = Inr doc \<and>
         validate_mapping_structure D doc = None \<and>
         c = Create_mapping mapping_id doc \<and>
         events_of (MappingResource_put D req mapping_id) w =
           [Enforce ''identity:create_mapping'' None, Validate_mapping_structure doc,
            Federation_api (Create_mapping mapping_id doc)])) \<and>
   (Federation_api c \<in> set (events_of (MappingResource_patch D req mapping_id) w) \<longrightarrow>
      (\<exists>doc. and_then (body_member req ''mapping'') (normalize_dict D) = Inr doc \<and>
         validate_mapping_structure D doc = None \<and>
         c = Update_mapping mapping_id doc \<and>
         events_of (MappingResource_patch D req mapping_id) w =
           [Enforce ''identity:update_mapping'' None, Validate_mapping_structure doc,
            Federation_api (Update_mapping mapping_id doc)])) \<and>
   (Validate_mapping_structure x \<in> set (events_of (MappingResource_put D req mapping_id) w) \<and>
    validate_mapping_structure D x = Some e \<longrightarrow>
      MappingResource_put D req mapping_id w =
        (Inl e, w\<lparr>trace := trace w @ [Enforce ''identity:create_mapping'' None,
                                       Validate_mapping_structure x]\<rparr>)) \<and>
   (Validate_mapping_structure x \<in> set (events_of (MappingResource_patch D req mapping_id) w) \<and>
    validate_mapping_structure D x = Some e \<longrightarrow>
      MappingResource_patch D req mapping_id w =
        (Inl e, w\<lparr>trace := trace w @ [Enforce ''identity:update_mapping'' None,
                                       Validate_mapping_structure x]\<rparr>))"
proof (intro conjI impI)
  assume "Federation_api c \<in> set (events_of (MappingResource_put D req mapping_id) w)"
  then show "\<exists>doc. and_then (body_member req ''mapping'') (normalize_dict D) = Inr doc \<and>
         validate_mapping_structure D doc = None \<and>
         c = Create_mapping mapping_id doc \<and>
         events_of (MappingResource_put D req mapping_id) w =
           [Enforce ''identity:create_mapping'' None, Validate_mapping_structure doc,
            Federation_api (Create_mapping mapping_id doc)]"
    using mapping_put_cases [of D req mapping_id w]
    by (auto dest!: events_of_result)
next
  assume "Federation_api c \<in> set (events_of (MappingResource_patch D req mapping_id) w)"
  then show "\<exists>doc. and_then (body_member req ''mapping'') (normalize_dict D) = Inr doc \<and>
         validate_mapping_structure D doc = None \<and>
         c = Update_mapping mapping_id doc \<and>
         events_of (MappingResource_patch D req mapping_id) w =
           [Enforce ''identity:update_mapping'' None, Validate_mapping_structure doc,
            Federation_api (Update_mapping mapping_id doc)]"
    using mapping_patch_cases [of D req mapping_id w]
    by (auto dest!: events_of_result)
next
  assume "Validate_mapping_structure x \<in> set (events_of (MappingResource_put D req mapping_id) w) \<and>
    validate_mapping_structure D x = Some e"
  then show "MappingResource_put D req mapping_id w =
        (Inl e, w\<lparr>trace := trace w @ [Enforce ''identity:create_mapping'' None,
                                       Validate_mapping_structure x]\<rparr>)"
    using mapping_put_cases [of D req mapping_id w]
    apply (elim disjE exE conjE)
      apply (frule events_of_result, simp)
     apply (frule events_of_result, simp)
    apply simp
    done
next
  assume "Validate_mapping_structure x \<in> set (events_of (MappingResource_patch D req mapping_id) w) \<and>
    validate_mapping_structure D x = Some e"
  then show "MappingResource_patch D req mapping_id w =
        (Inl e, w\<lparr>trace := trace w @ [Enforce ''identity:update_mapping'' None,
                                       Validate_mapping_structure x]\<rparr>)"
    using mapping_patch_cases [of D req mapping_id w]
    apply (elim disjE exE conjE)
      apply (frule events_of_result, simp)
     apply (frule events_of_result, simp)
    apply simp
    done
qed

text \<open>In the small deployment a mapping without rules is refused before any write, and
  a mapping with rules is validated and then written.\<close>

theorem mapping_validated_before_write_witness:
  "MappingResource_put (example_deps no_store)
     (example_request (JDict [(''mapping'', JDict [])])) ''m1'' (fresh ()) =
     (Inl ValidationError,
      (fresh ())\<lparr>trace := trace (fresh ()) @ [Enforce ''identity:create_mapping'' None,
                   Validate_mapping_structure (JDict [])]\<rparr>) \<and>
   MappingResource_patch (example_deps no_store)
     (example_request (JDict [(''mapping'', JDict [])])) ''m1'' (fresh ()) =
     (Inl ValidationError,
      (fresh ())\<lparr>trace := trace (fresh ()) @ [Enforce ''identity:update_mapping'' None,
                   Validate_mapping_structure (JDict [])]\<rparr>) \<and>
   validate_mapping_structure (example_deps no_store) (JDict [(''rules'', JList [])]) = None \<and>
   events_of (MappingResource_put (example_deps no_store)
     (example_request (JDict [(''mapping'', JDict [(''rules'', JList [])])])) ''m1'') (fresh ()) =
     [Enforce ''identity:create_mapping'' None,
      Validate_mapping_structure (JDict [(''rules'', JList [])]),
      Federation_api (Create_mapping ''m1'' (JDict [(''rules'', JList [])]))] \<and>
   events_of (MappingResource_patch (example_deps no_store)
     (example_request (JDict [(''mapping'', JDict [(''rules'', JList [])])])) ''m1'') (fresh ()) =
     [Enforce ''identity:update_mapping'' None,
      Validate_mapping_structure (JDict [(''rules'', JList [])]),
      Federation_api (Update_mapping ''m1'' (JDict [(''rules'', JList [])]))]"
proof -
  let ?D = "example_deps no_store"
  let ?bad = "example_request (JDict [(''mapping'', JDict [])])"
  let ?good = "example_request (JDict [(''mapping'', JDict [(''rules'', JList [])])])"
  have bad_put: "Validate_mapping_structure (JDict [])
      \<in> set (events_of (MappingResource_put ?D ?bad ''m1'') (fresh ()))"
    by (simp add: MappingResource_put_def run_defs events_of_def body_member_def emit_def)
  have bad_patch: "Validate_mapping_structure (JDict [])
      \<in> set (events_of (MappingResource_patch ?D ?bad ''m1'') (fresh ()))"
    by (simp add: MappingResource_patch_def run_defs events_of_def body_member_def emit_def)
  have raises: "validate_mapping_structure ?D (JDict []) = Some ValidationError"
    by simp
  have good_put: "Federation_api (Create_mapping ''m1'' (JDict [(''rules'', JList [])]))
      \<in> set (events_of (MappingResource_put ?D ?good ''m1'') (fresh ()))"
    by (simp add: MappingResource_put_def run_defs events_of_def body_member_def emit_def
        no_store_def)
  have good_patch: "Federation_api (Update_mapping ''m1'' (JDict [(''rules'', JList [])]))
      \<in> set (events_of (MappingResource_patch ?D ?good ''m1'') (fresh ()))"
    by (simp add: MappingResource_patch_def run_defs events_of_def body_member_def emit_def
        no_store_def)
  show ?thesis
    using mapping_validated_before_write
            [of "Create_mapping ''m1'' (JDict [(''rules'', JList [])])" ?D ?good "''m1''"
                "fresh ()" "JDict []" ValidationError]
          mapping_validated_before_write
            [of "Update_mapping ''m1'' (JDict [(''rules'', JList [])])" ?D ?good "''m1''"
                "fresh ()" "JDict []" ValidationError]
          mapping_validated_before_write
            [of "Create_mapping ''m1'' (JDict [])" ?D ?bad "''m1''"
                "fresh ()" "JDict []" ValidationError]
          bad_put bad_patch raises good_put good_patch
    by auto
qed

section \<open>Creating a service provider\<close>

lemma map_of_dict_setdefault:
  "map_of (dict_setdefault d k v) k' =
     (if k' = k then Some (case map_of d k of None \<Rightarrow> v | Some x \<Rightarrow> x) else map_of d k')"
  by (auto simp: dict_setdefault_def map_add_def split: option.splits)

text \<open>
  Claim C7. On a service provider create that passes the policy check and the schema,
  with a document whose \<^verbatim>\<open>enabled\<close> and \<^verbatim>\<open>relay_state_prefix\<close> entries normalization leaves
  as they were submitted: the record given to the store's \<^verbatim>\<open>create_sp\<close> has \<^verbatim>\<open>enabled\<close>
  false when the input omits it and \<^verbatim>\<open>relay_state_prefix\<close> equal to the configured
  default when the input omits it; a supplied value of either field is kept, and no
  other field is touched.
\<close>

theorem sp_create_defaults:
  assumes gate: "enforce_call D ''identity:create_service_provider'' None req (outside w) = None"
      and body: "body_member req ''service_provider'' = Inr (JDict d0)"
      and valid: "lazy_validate D service_provider_create (JDict d0) = None"
      and norm: "normalize_dict D (JDict d0) = Inr (JDict d)"
      and keep: "map_of d ''enabled'' = map_of d0 ''enabled''"
                "map_of d ''relay_state_prefix'' = map_of d0 ''relay_state_prefix''"
  shows "\<exists>sp. events_of (ServiceProvidersResource_put D req sp_id) w =
                 [Enforce ''identity:create_service_provider'' None,
                  Lazy_validate service_provider_create (JDict d0),
                  Federation_api (Create_sp sp_id (JDict sp))] \<and>
          map_of sp ''enabled'' =
            Some (case map_of d0 ''enabled'' of None \<Rightarrow> JBool False | Some v \<Rightarrow> v) \<and>
          map_of sp ''relay_state_prefix'' =
            Some (case map_of d0 ''relay_state_prefix'' of
                    None \<Rightarrow> relay_state_prefix D | Some v \<Rightarrow> v) \<and>
          (\<forall>k. k \<noteq> ''enabled'' \<longrightarrow> k \<noteq> ''relay_state_prefix'' \<longrightarrow> map_of sp k = map_of d k)"
proof -
  let ?sp = "dict_setdefault (dict_setdefault d ''enabled'' (JBool False))
               ''relay_state_prefix'' (relay_state_prefix D)"
  have ev: "events_of (ServiceProvidersResource_put D req sp_id) w =
                 [Enforce ''identity:create_service_provider'' None,
                  Lazy_validate service_provider_create (JDict d0),
                  Federation_api (Create_sp sp_id (JDict ?sp))]"
    using gate body valid norm
    by (simp add: ServiceProvidersResource_put_def run_defs events_of_def emit_def
        split: prod.splits sum.splits)
  have en: "map_of ?sp ''enabled'' =
            Some (case map_of d0 ''enabled'' of None \<Rightarrow> JBool False | Some v \<Rightarrow> v)"
    by (simp add: map_of_dict_setdefault keep)
  have rs: "map_of ?sp ''relay_state_prefix'' =
            Some (case map_of d0 ''relay_state_prefix'' of
                    None \<Rightarrow> relay_state_prefix D | Some v \<Rightarrow> v)"
    by (simp add: map_of_dict_setdefault keep)
  have other: "\<forall>k. k \<noteq> ''enabled'' \<longrightarrow> k \<noteq> ''relay_state_prefix'' \<longrightarrow> map_of ?sp k = map_of d k"
    by (simp add: map_of_dict_setdefault)
  from ev en rs other show ?thesis by blast
qed

text \<open>A document without the two fields gets both defaults; a document with both
  keeps them.\<close>

theorem sp_create_defaults_witness:
  "(\<exists>sp. events_of (ServiceProvidersResource_put (example_deps no_store)
             (example_request (JDict [(''service_provider'',
                JDict [(''auth_url'', JStr ''https://sp/auth''), (''sp_url'', JStr ''https://sp'')])]))
             ''sp1'') (fresh ()) =
           [Enforce ''identity:create_service_provider'' None,
            Lazy_validate service_provider_create
              (JDict [(''auth_url'', JStr ''https://sp/auth''), (''sp_url'', JStr ''https://sp'')]),
            Federation_api (Create_sp ''sp1'' (JDict sp))] \<and>
         map_of sp ''enabled'' = Some (JBool False) \<and>
         map_of sp ''relay_state_prefix'' = Some (JStr ''ss:mem:'')) \<and>
   (\<exists>sp. events_of (ServiceProvidersResource_put (example_deps no_store)
             (example_request (JDict [(''service_provider'',
                JDict [(''enabled'', JBool True), (''relay_state_prefix'', JStr ''custom:'')])]))
             ''sp1'') (fresh ()) =
           [Enforce ''identity:create_service_provider'' None,
            Lazy_validate service_provider_create
              (JDict [(''enabled'', JBool True), (''relay_state_prefix'', JStr ''custom:'')]),
            Federation_api (Create_sp ''sp1'' (JDict sp))] \<and>
         map_of sp ''enabled'' = Some (JBool True) \<and>
         map_of sp ''relay_state_prefix'' = Some (JStr ''custom:''))"
  using sp_create_defaults
          [of "example_deps no_store"
              "example_request (JDict [(''service_provider'',
                 JDict [(''auth_url'', JStr ''https://sp/auth''), (''sp_url'', JStr ''https://sp'')])])"
              "fresh ()"
              "[(''auth_url'', JStr ''https://sp/auth''), (''sp_url'', JStr ''https://sp'')]"
              "[(''auth_url'', JStr ''https://sp/auth''), (''sp_url'', JStr ''https://sp'')]"
              "''sp1''"]
        sp_create_defaults
          [of "example_deps no_store"
              "example_request (JDict [(''service_provider'',
                 JDict [(''enabled'', JBool True), (''relay_state_prefix'', JStr ''custom:'')])])"
              "fresh ()"
              "[(''enabled'', JBool True), (''relay_state_prefix'', JStr ''custom:'')]"
              "[(''enabled'', JBool True), (''relay_state_prefix'', JStr ''custom:'')]"
              "''sp1''"]
  by (simp add: body_member_def) blast

section \<open>Projects and domains: which exceptions are caught\<close>

lemma answering_sel [simp]:
  "enforce_call (answering D c s r) = enforce_call D"
  "AUTH_CONTEXT_ENV (answering D c s r) = AUTH_CONTEXT_ENV D"
  "wrap_collection (answering D c s r) = wrap_collection D"
  "assignment_api (answering D c s r) c' s' =
     (if c' = c \<and> s' = s then r else assignment_api D c' s')"
  by (simp_all add: answering_def)

lemma auth_context_answering [simp]:
  "auth_context_of (answering D c s r) req = auth_context_of D req"
  by (simp add: auth_context_of_def)

lemma projects_swallow:
  assumes "py_get (auth_context_of D req) ''user_id'' JNull = Inr uid"
      and "assignment_api D (List_projects_for_user uid) (outside w) = (Inl UserNotFound, s1)"
  shows "OSFederationProjectResource_get D req w =
         OSFederationProjectResource_get
           (answering D (List_projects_for_user uid) (outside w) (Inr [], s1)) req w"
  using assms
  by (simp add: OSFederationProjectResource_get_def run_defs except_UserNotFound_def emit_def
      split: option.splits sum.splits prod.splits)

lemma domains_swallow:
  assumes "py_get (auth_context_of D req) ''user_id'' JNull = Inr uid"
      and "assignment_api D (List_domains_for_user uid) (outside w) = (Inl UserNotFound, s1)"
  shows "OSFederationDomainResource_get D req w =
         OSFederationDomainResource_get
           (answering D (List_domains_for_user uid) (outside w) (Inr [], s1)) req w"
  using assms
  by (simp add: OSFederationDomainResource_get_def run_defs except_UserNotFound_def emit_def
      split: option.splits sum.splits prod.splits)

lemma projects_group_error:
  assumes gate: "enforce_call D ''identity:get_auth_projects'' None req (outside w) = None"
      and uid: "py_get (auth_context_of D req) ''user_id'' JNull = Inr uid"
      and gids: "py_get (auth_context_of D req) ''group_ids'' JNull = Inr gids"
      and tg: "truthy gids"
      and pass: "user_lookup_passes D (List_projects_for_user uid) uid (outside w)"
      and err: "fst (assignment_api D (List_projects_for_groups gids)
                 (after_user_lookup D (List_projects_for_user uid) uid (outside w))) = Inl e"
  shows "fst (OSFederationProjectResource_get D req w) = Inl e"
proof (cases "truthy uid")
  case False
  with err obtain s2 where
    "assignment_api D (List_projects_for_groups gids) (outside w) = (Inl e, s2)"
    by (cases "assignment_api D (List_projects_for_groups gids) (outside w)")
       (simp add: after_user_lookup_def)
  with False gate uid gids tg show ?thesis
    by (simp add: OSFederationProjectResource_get_def run_defs emit_def)
next
  case True
  obtain r s1 where u: "assignment_api D (List_projects_for_user uid) (outside w) = (r, s1)"
    by force
  with err True obtain s2 where
    g: "assignment_api D (List_projects_for_groups gids) s1 = (Inl e, s2)"
    by (cases "assignment_api D (List_projects_for_groups gids) s1")
       (simp add: after_user_lookup_def)
  from pass True u have "r = Inl UserNotFound \<or> (\<exists>refs. r = Inr refs)"
    by (cases r) (simp_all add: user_lookup_passes_def)
  then show ?thesis
    using True gate uid gids tg u g
    by (auto simp: OSFederationProjectResource_get_def run_defs emit_def
        except_UserNotFound_def)
qed

lemma domains_group_error:
  assumes gate: "enforce_call D ''identity:get_auth_domains'' None req (outside w) = None"
      and uid: "py_get (auth_context_of D req) ''user_id'' JNull = Inr uid"
      and gids: "py_get (auth_context_of D req) ''group_ids'' JNull = Inr gids"
      and tg: "truthy gids"
      and pass: "user_lookup_passes D (List_domains_for_user uid) uid (outside w)"
      and err: "fst (assignment_api D (List_domains_for_groups gids)
                 (after_user_lookup D (List_domains_for_user uid) uid (outside w))) = Inl e"
  shows "fst (OSFederationDomainResource_get D req w) = Inl e"
proof (cases "truthy uid")
  case False
  with err obtain s2 where
    "assignment_api D (List_domains_for_groups gids) (outside w) = (Inl e, s2)"
    by (cases "assignment_api D (List_domains_for_groups gids) (outside w)")
       (simp add: after_user_lookup_def)
  with False gate uid gids tg show ?thesis
    by (simp add: OSFederationDomainResource_get_def run_defs emit_def)
next
  case True
  obtain r s1 where u: "assignment_api D (List_domains_for_user uid) (outside w) = (r, s1)"
    by force
  with err True obtain s2 where
    g: "assignment_api D (List_domains_for_groups gids) s1 = (Inl e, s2)"
    by (cases "assignment_api D (List_domains_for_groups gids) s1")
       (simp add: after_user_lookup_def)
  from pass True u have "r = Inl UserNotFound \<or> (\<exists>refs. r = Inr refs)"
    by (cases r) (simp_all add: user_lookup_passes_def)
  then show ?thesis
    using True gate uid gids tg u g
    by (auto simp: OSFederationDomainResource_get_def run_defs emit_def
        except_UserNotFound_def)
qed

lemma projects_user_error:
  assumes gate: "enforce_call D ''identity:get_auth_projects'' None req (outside w) = None"
      and uid: "py_get (auth_context_of D req) ''user_id'' JNull = Inr uid"
      and gids: "py_get (auth_context_of D req) ''group_ids'' JNull = Inr gids"
      and tu: "truthy uid"
      and err: "fst (assignment_api D (List_projects_for_user uid) (outside w)) = Inl e"
      and other: "e \<noteq> UserNotFound"
  shows "fst (OSFederationProjectResource_get D req w) = Inl e"
proof -
  from err obtain s1 where
    u: "assignment_api D (List_projects_for_user uid) (outside w) = (Inl e, s1)"
    by (cases "assignment_api D (List_projects_for_user uid) (outside w)") simp
  with gate uid gids tu other show ?thesis
    by (cases e)
       (simp_all add: OSFederationProjectResource_get_def run_defs emit_def
          except_UserNotFound_def)
qed

lemma domains_user_error:
  assumes gate: "enforce_call D ''identity:get_auth_domains'' None req (outside w) = None"
      and uid: "py_get (auth_context_of D req) ''user_id'' JNull = Inr uid"
      and gids: "py_get (auth_context_of D req) ''group_ids'' JNull = Inr gids"
      and tu: "truthy uid"
      and err: "fst (assignment_api D (List_domains_for_user uid) (outside w)) = Inl e"
      and other: "e \<noteq> UserNotFound"
  shows "fst (OSFederationDomainResource_get D req w) = Inl e"
proof -
  from err obtain s1 where
    u: "assignment_api D (List_domains_for_user uid) (outside w) = (Inl e, s1)"
    by (cases "assignment_api D (List_domains_for_user uid) (outside w)") simp
  with gate uid gids tu other show ?thesis
    by (cases e)
       (simp_all add: OSFederationDomainResource_get_def run_defs emit_def
          except_UserNotFound_def)
qed

lemma projects_gate_error:
  "enforce_call D ''identity:get_auth_projects'' None req (outside w) = Some e \<Longrightarrow>
   fst (OSFederationProjectResource_get D req w) = Inl e"
  by (simp add: OSFederationProjectResource_get_def run_defs)

lemma domains_gate_error:
  "enforce_call D ''identity:get_auth_domains'' None req (outside w) = Some e \<Longrightarrow>
   fst (OSFederationDomainResource_get D req w) = Inl e"
  by (simp add: OSFederationDomainResource_get_def run_defs)

text \<open>
  Claim C3. In the project aggregation and in the domain aggregation alike:
  a UserNotFound raised by the per-user lookup changes nothing compared with the same
  lookup returning the empty list; an exception raised by the per-group lookup, whatever
  it is, ends the operation with that exception; an exception of the per-user lookup
  other than UserNotFound does so too; and so does an exception of the policy check,
  UserNotFound included.
\<close>

theorem aggregation_swallows_only_UserNotFound:
  "(py_get (auth_context_of D req) ''user_id'' JNull = Inr uid \<and>
    assignment_api D (List_projects_for_user uid) (outside w) = (Inl UserNotFound, s1) \<longrightarrow>
      OSFederationProjectResource_get D req w =
      OSFederationProjectResource_get
        (answering D (List_projects_for_user uid) (outside w) (Inr [], s1)) req w) \<and>
   (py_get (auth_context_of D req) ''user_id'' JNull = Inr uid \<and>
    assignment_api D (List_domains_for_user uid) (outside w) = (Inl UserNotFound, s1) \<longrightarrow>
      OSFederationDomainResource_get D req w =
      OSFederationDomainResource_get
        (answering D (List_domains_for_user uid) (outside w) (Inr [], s1)) req w) \<and>
   (enforce_call D ''identity:get_auth_projects'' None req (outside w) = None \<and>
    py_get (auth_context_of D req) ''user_id'' JNull = Inr uid \<and>
    py_get (auth_context_of D req) ''group_ids'' JNull = Inr gids \<and>
    truthy gids \<and>
    user_lookup_passes D (List_projects_for_user uid) uid (outside w) \<and>
    fst (assignment_api D (List_projects_for_groups gids)
           (after_user_lookup D (List_projects_for_user uid) uid (outside w))) = Inl e \<longrightarrow>
      fst (OSFederationProjectResource_get D req w) = Inl e) \<and>
   (enforce_call D ''identity:get_auth_domains'' None req (outside w) = None \<and>
    py_get (auth_context_of D req) ''user_id'' JNull = Inr uid \<and>
    py_get (auth_context_of D req) ''group_ids'' JNull = Inr gids \<and>
    truthy gids \<and>
    user_lookup_passes D (List_domains_for_user uid) uid (outside w) \<and>
    fst (assignment_api D (List_domains_for_groups gids)
           (after_user_lookup D (List_domains_for_user uid) uid (outside w))) = Inl e \<longrightarrow>
      fst (OSFederationDomainResource_get D req w) = Inl e) \<and>
   (enforce_call D ''identity:get_auth_projects'' None req (outside w) = None \<and>
    py_get (auth_context_of D req) ''user_id'' JNull = Inr uid \<and>
    py_get (auth_context_of D req) ''group_ids'' JNull = Inr gids \<and>
    truthy uid \<and>
    fst (assignment_api D (List_projects_for_user uid) (outside w)) = Inl e \<and>
    e \<noteq> UserNotFound \<longrightarrow>
      fst (OSFederationProjectResource_get D req w) = Inl e) \<and>
   (enforce_call D ''identity:get_auth_domains'' None req (outside w) = None \<and>
    py_get (auth_context_of D req) ''user_id'' JNull = Inr uid \<and>
    py_get (auth_context_of D req) ''group_ids'' JNull = Inr gids \<and>
    truthy uid \<and>
    fst (assignment_api D (List_domains_for_user uid) (outside w)) = Inl e \<and>
    e \<noteq> UserNotFound \<longrightarrow>
      fst (OSFederationDomainResource_get D req w) = Inl e) \<and>
   (enforce_call D ''identity:get_auth_projects'' None req (outside w) = Some e \<longrightarrow>
      fst (OSFederationProjectResource_get D req w) = Inl e) \<and>
   (enforce_call D ''identity:get_auth_domains'' None req (outside w) = Some e \<longrightarrow>
      fst (OSFederationDomainResource_get D req w) = Inl e)"
  using projects_swallow [of D req uid w s1] domains_swallow [of D req uid w s1]
        projects_group_error [of D req w uid gids e] domains_group_error [of D req w uid gids e]
        projects_user_error [of D req w uid gids e] domains_user_error [of D req w uid gids e]
        projects_gate_error [of D req w e] domains_gate_error [of D req w e]
  by blast


text \<open>Lookups of the small deployment made to raise, one case at a time.\<close>

lemma lookups_simps [simp]:
  "lookups u g (List_projects_for_user x) s = (u, s)"
  "lookups u g (List_projects_for_groups x) s = (g, s)"
  "lookups u g (List_domains_for_user x) s = (u, s)"
  "lookups u g (List_domains_for_groups x) s = (g, s)"
  by (simp_all add: lookups_def)

lemma auth_context_example [simp]:
  "AUTH_CONTEXT_ENV D = ''KEYSTONE_AUTH_CONTEXT'' \<Longrightarrow>
   auth_context_of D (example_request body) =
     JDict [(''user_id'', JStr ''u1''), (''group_ids'', JList [JStr ''g1''])]"
  by (simp add: auth_context_of_def example_request_def)

theorem aggregation_swallows_only_UserNotFound_witness:
  "OSFederationProjectResource_get
     ((example_deps no_store)\<lparr>assignment_api :=
        lookups (Inl UserNotFound) (Inr [JDict [(''id'', JStr ''p1'')]])\<rparr>)
     (example_request JNull) (fresh ()) =
   OSFederationProjectResource_get
     (answering ((example_deps no_store)\<lparr>assignment_api :=
        lookups (Inl UserNotFound) (Inr [JDict [(''id'', JStr ''p1'')]])\<rparr>)
        (List_projects_for_user (JStr ''u1'')) () (Inr [], ()))
     (example_request JNull) (fresh ()) \<and>
   OSFederationDomainResource_get
     ((example_deps no_store)\<lparr>assignment_api :=
        lookups (Inl UserNotFound) (Inr [JDict [(''id'', JStr ''d1'')]])\<rparr>)
     (example_request JNull) (fresh ()) =
   OSFederationDomainResource_get
     (answering ((example_deps no_store)\<lparr>assignment_api :=
        lookups (Inl UserNotFound) (Inr [JDict [(''id'', JStr ''d1'')]])\<rparr>)
        (List_domains_for_user (JStr ''u1'')) () (Inr [], ()))
     (example_request JNull) (fresh ()) \<and>
   fst (OSFederationProjectResource_get
     ((example_deps no_store)\<lparr>assignment_api := lookups (Inl UserNotFound) (Inl NotFound)\<rparr>)
     (example_request JNull) (fresh ())) = Inl NotFound \<and>
   fst (OSFederationDomainResource_get
     ((example_deps no_store)\<lparr>assignment_api := lookups (Inr []) (Inl UserNotFound)\<rparr>)
     (example_request JNull) (fresh ())) = Inl UserNotFound \<and>
   fst (OSFederationProjectResource_get
     ((example_deps no_store)\<lparr>assignment_api := lookups (Inl Forbidden) (Inr [])\<rparr>)
     (example_request JNull) (fresh ())) = Inl Forbidden \<and>
   fst (OSFederationDomainResource_get
     ((example_deps no_store)\<lparr>assignment_api := lookups (Inl Conflict) (Inr [])\<rparr>)
     (example_request JNull) (fresh ())) = Inl Conflict \<and>
   fst (OSFederationProjectResource_get
     ((example_deps no_store)\<lparr>enforce_call := \<lambda>act filters req s. Some UserNotFound\<rparr>)
     (example_request JNull) (fresh ())) = Inl UserNotFound \<and>
   fst (OSFederationDomainResource_get
     ((example_deps no_store)\<lparr>enforce_call := \<lambda>act filters req s. Some UserNotFound\<rparr>)
     (example_request JNull) (fresh ())) = Inl UserNotFound"
  using aggregation_swallows_only_UserNotFound
          [where D = "(example_deps no_store)\<lparr>assignment_api :=
                        lookups (Inl UserNotFound) (Inr [JDict [(''id'', JStr ''p1'')]])\<rparr>"
             and req = "example_request JNull" and w = "fresh ()" and uid = "JStr ''u1''"
             and ?s1.0 = "()", THEN conjunct1]
        aggregation_swallows_only_UserNotFound
          [where D = "(example_deps no_store)\<lparr>assignment_api :=
                        lookups (Inl UserNotFound) (Inr [JDict [(''id'', JStr ''d1'')]])\<rparr>"
             and req = "example_request JNull" and w = "fresh ()" and uid = "JStr ''u1''"
             and ?s1.0 = "()", THEN conjunct2, THEN conjunct1]
        aggregation_swallows_only_UserNotFound
          [where D = "(example_deps no_store)\<lparr>assignment_api :=
                        lookups (Inl UserNotFound) (Inl NotFound)\<rparr>"
             and req = "example_request JNull" and w = "fresh ()" and uid = "JStr ''u1''"
             and gids = "JList [JStr ''g1'']" and e = NotFound,
           THEN conjunct2, THEN conjunct2, THEN conjunct1]
        aggregation_swallows_only_UserNotFound
          [where D = "(example_deps no_store)\<lparr>assignment_api :=
                        lookups (Inr []) (Inl UserNotFound)\<rparr>"
             and req = "example_request JNull" and w = "fresh ()" and uid = "JStr ''u1''"
             and gids = "JList [JStr ''g1'']" and e = UserNotFound,
           THEN conjunct2, THEN conjunct2, THEN conjunct2, THEN conjunct1]
        aggregation_swallows_only_UserNotFound
          [where D = "(example_deps no_store)\<lparr>assignment_api :=
                        lookups (Inl Forbidden) (Inr [])\<rparr>"
             and req = "example_request JNull" and w = "fresh ()" and uid = "JStr ''u1''"
             and gids = "JList [JStr ''g1'']" and e = Forbidden,
           THEN conjunct2, THEN conjunct2, THEN conjunct2, THEN conjunct2, THEN conjunct1]
        aggregation_swallows_only_UserNotFound
          [where D = "(example_deps no_store)\<lparr>assignment_api :=
                        lookups (Inl Conflict) (Inr [])\<rparr>"
             and req = "example_request JNull" and w = "fresh ()" and uid = "JStr ''u1''"
             and gids = "JList [JStr ''g1'']" and e = Conflict,
           THEN conjunct2, THEN conjunct2, THEN conjunct2, THEN conjunct2, THEN conjunct2,
           THEN conjunct1]
        aggregation_swallows_only_UserNotFound
          [where D = "(example_deps no_store)\<lparr>enforce_call :=
                        \<lambda>act filters req s. Some UserNotFound\<rparr>"
             and req = "example_request JNull" and w = "fresh ()" and e = UserNotFound,
           THEN conjunct2, THEN conjunct2, THEN conjunct2, THEN conjunct2, THEN conjunct2,
           THEN conjunct2]
  by (simp add: user_lookup_passes_def after_user_lookup_def)

section \<open>The policy check\<close>

lemma grows_ret: "grows (ret x)"
  by (simp add: grows_def ret_def)

lemma grows_lift: "grows (lift r)"
  by (simp add: grows_def lift_def)

lemma grows_outside: "grows (\<lambda>w. lift (g (outside w)) w)"
  by (simp add: grows_def lift_def)

lemma grows_then_do:
  assumes "grows m" and "\<And>x. grows (f x)"
  shows "grows (then_do m f)"
  unfolding grows_def
proof
  fix w
  from assms(1) obtain es where es: "trace (snd (m w)) = trace w @ es"
    unfolding grows_def by blast
  show "\<exists>es. trace (snd (then_do m f w)) = trace w @ es"
  proof (cases "m w")
    case (Pair r w')
    show ?thesis
    proof (cases r)
      case (Inl e)
      with Pair es show ?thesis by (simp add: then_do_def)
    next
      case (Inr x)
      from assms(2) [of x] obtain es' where "trace (snd (f x w')) = trace w' @ es'"
        unfolding grows_def by blast
      with Pair Inr es show ?thesis by (simp add: then_do_def)
    qed
  qed
qed

lemma grows_if: "grows a \<Longrightarrow> grows b \<Longrightarrow> grows (if c then a else b)"
  by simp

lemma grows_except: "grows m \<Longrightarrow> grows (except_UserNotFound m dflt)"
  unfolding grows_def except_UserNotFound_def
  by (auto split: prod.splits sum.splits error.splits) (metis snd_conv)+

lemma grows_calls:
  "grows (ENFORCER_enforce_call D req act filters)"
  "grows (validation_lazy_validate D sch x)"
  "grows (utils_validate_mapping_structure D x)"
  "grows (PROVIDERS_federation_api D c)"
  "grows (PROVIDERS_assignment_api D a)"
  "grows (compat_controller_authenticate_for_token D rq auth)"
  by (auto simp: grows_def run_defs emit_def split: option.splits prod.splits)

lemmas grows_intros =
  grows_ret grows_lift grows_outside grows_then_do grows_if grows_except grows_calls

lemma gated:
  assumes "\<And>u. grows (k u)"
  shows "(\<exists>rest. events_of (then_do (ENFORCER_enforce_call D req act filters) k) w =
            Enforce act filters # rest) \<and>
         (enforce_call D act filters req (outside w) = Some e \<longrightarrow>
            then_do (ENFORCER_enforce_call D req act filters) k w =
              (Inl e, w\<lparr>trace := trace w @ [Enforce act filters]\<rparr>))"
proof (cases "enforce_call D act filters req (outside w)")
  case (Some e')
  then show ?thesis
    by (simp add: then_do_def ENFORCER_enforce_call_def events_of_def emit_def)
next
  case None
  from assms [of "()"] obtain es where
    "trace (snd (k () (emit (Enforce act filters) w))) = trace (emit (Enforce act filters) w) @ es"
    unfolding grows_def by blast
  with None show ?thesis
    by (simp add: then_do_def ENFORCER_enforce_call_def events_of_def)
qed

lemma get_idp_gated:
  "(\<exists>rest. events_of (get_idp D req i) w = Enforce ''identity:get_identity_provider'' None # rest) \<and>
   (enforce_call D ''identity:get_identity_provider'' None req (outside w) = Some e \<longrightarrow>
      get_idp D req i w = (Inl e, w\<lparr>trace := trace w @ [Enforce ''identity:get_identity_provider'' None]\<rparr>))"
  unfolding get_idp_def by (rule gated) (intro grows_intros)

lemma list_idps_gated:
  "(\<exists>rest. events_of (list_idps D req) w = Enforce ''identity:list_identity_providers'' (Some [''id'', ''enabled'']) # rest) \<and>
   (enforce_call D ''identity:list_identity_providers'' (Some [''id'', ''enabled'']) req (outside w) = Some e \<longrightarrow>
      list_idps D req w = (Inl e, w\<lparr>trace := trace w @ [Enforce ''identity:list_identity_providers'' (Some [''id'', ''enabled''])]\<rparr>))"
  unfolding list_idps_def by (rule gated) (intro grows_intros)

lemma idp_put_gated:
  "(\<exists>rest. events_of (IdentityProvidersResource_put D req i) w = Enforce ''identity:create_identity_provider'' None # rest) \<and>
   (enforce_call D ''identity:create_identity_provider'' None req (outside w) = Some e \<longrightarrow>
      IdentityProvidersResource_put D req i w = (Inl e, w\<lparr>trace := trace w @ [Enforce ''identity:create_identity_provider'' None]\<rparr>))"
  unfolding IdentityProvidersResource_put_def by (rule gated) (intro grows_intros)

lemma idp_patch_gated:
  "(\<exists>rest. events_of (IdentityProvidersResource_patch D req i) w = Enforce ''identity:update_identity_provider'' None # rest) \<and>
   (enforce_call D ''identity:update_identity_provider'' None req (outside w) = Some e \<longrightarrow>
      IdentityProvidersResource_patch D req i w = (Inl e, w\<lparr>trace := trace w @ [Enforce ''identity:update_identity_provider'' None]\<rparr>))"
  unfolding IdentityProvidersResource_patch_def by (rule gated) (intro grows_intros)

lemma idp_delete_gated:
  "(\<exists>rest. events_of (IdentityProvidersResource_delete D req i) w = Enforce ''identity:delete_identity_provider'' None # rest) \<and>
   (enforce_call D ''identity:delete_identity_provider'' None req (outside w) = Some e \<longrightarrow>
      IdentityProvidersResource_delete D req i w = (Inl e, w\<lparr>trace := trace w @ [Enforce ''identity:delete_identity_provider'' None]\<rparr>))"
  unfolding IdentityProvidersResource_delete_def by (rule gated) (intro grows_intros)

lemma get_protocol_gated:
  "(\<exists>rest. events_of (get_protocol D req i p) w = Enforce ''identity:get_protocol'' None # rest) \<and>
   (enforce_call D ''identity:get_protocol'' None req (outside w) = Some e \<longrightarrow>
      get_protocol D req i p w = (Inl e, w\<lparr>trace := trace w @ [Enforce ''identity:get_protocol'' None]\<rparr>))"
  unfolding get_protocol_def by (rule gated) (intro grows_intros)

lemma list_protocols_gated:
  "(\<exists>rest. events_of (list_protocols D req i) w = Enforce ''identity:list_protocols'' None # rest) \<and>
   (enforce_call D ''identity:list_protocols'' None req (outside w) = Some e \<longrightarrow>
      list_protocols D req i w = (Inl e, w\<lparr>trace := trace w @ [Enforce ''identity:list_protocols'' None]\<rparr>))"
  unfolding list_protocols_def by (rule gated) (intro grows_intros)

lemma protocol_put_gated:
  "(\<exists>rest. events_of (IdentityProvidersProtocolsResource_put D req i p) w = Enforce ''identity:create_protocol'' None # rest) \<and>
   (enforce_call D ''identity:create_protocol'' None req (outside w) = Some e \<longrightarrow>
      IdentityProvidersProtocolsResource_put D req i p w = (Inl e, w\<lparr>trace := trace w @ [Enforce ''identity:create_protocol'' None]\<rparr>))"
  unfolding IdentityProvidersProtocolsResource_put_def by (rule gated) (intro grows_intros)

lemma protocol_patch_gated:
  "(\<exists>rest. events_of (IdentityProvidersProtocolsResource_patch D req i p) w = Enforce ''identity:update_protocol'' None # rest) \<and>
   (enforce_call D ''identity:update_protocol'' None req (outside w) = Some e \<longrightarrow>
      IdentityProvidersProtocolsResource_patch D req i p w = (Inl e, w\<lparr>trace := trace w @ [Enforce ''identity:update_protocol'' None]\<rparr>))"
  unfolding IdentityProvidersProtocolsResource_patch_def by (rule gated) (intro grows_intros)

lemma protocol_delete_gated:
  "(\<exists>rest. events_of (IdentityProvidersProtocolsResource_delete D req i p) w = Enforce ''identity:delete_protocol'' None # rest) \<and>
   (enforce_call D ''identity:delete_protocol'' None req (outside w) = Some e \<longrightarrow>
      IdentityProvidersProtocolsResource_delete D req i p w = (Inl e, w\<lparr>trace := trace w @ [Enforce ''identity:delete_protocol'' None]\<rparr>))"
  unfolding IdentityProvidersProtocolsResource_delete_def by (rule gated) (intro grows_intros)

lemma get_mapping_gated:
  "(\<exists>rest. events_of (get_mapping D req i) w = Enforce ''identity:get_mapping'' None # rest) \<and>
   (enforce_call D ''identity:get_mapping'' None req (outside w) = Some e \<longrightarrow>
      get_mapping D req i w = (Inl e, w\<lparr>trace := trace w @ [Enforce ''identity:get_mapping'' None]\<rparr>))"
  unfolding get_mapping_def by (rule gated) (intro grows_intros)

lemma list_mappings_gated:
  "(\<exists>rest. events_of (list_mappings D req) w = Enforce ''identity:list_mappings'' None # rest) \<and>
   (enforce_call D ''identity:list_mappings'' None req (outside w) = Some e \<longrightarrow>
      list_mappings D req w = (Inl e, w\<lparr>trace := trace w @ [Enforce ''identity:list_mappings'' None]\<rparr>))"
  unfolding list_mappings_def by (rule gated) (intro grows_intros)

lemma mapping_put_gated:
  "(\<exists>rest. events_of (MappingResource_put D req i) w = Enforce ''identity:create_mapping'' None # rest) \<and>
   (enforce_call D ''identity:create_mapping'' None req (outside w) = Some e \<longrightarrow>
      MappingResource_put D req i w = (Inl e, w\<lparr>trace := trace w @ [Enforce ''identity:create_mapping'' None]\<rparr>))"
  unfolding MappingResource_put_def by (rule gated) (intro grows_intros)

lemma mapping_patch_gated:
  "(\<exists>rest. events_of (MappingResource_patch D req i) w = Enforce ''identity:update_mapping'' None # rest) \<and>
   (enforce_call D ''identity:update_mapping'' None req (outside w) = Some e \<longrightarrow>
      MappingResource_patch D req i w = (Inl e, w\<lparr>trace := trace w @ [Enforce ''identity:update_mapping'' None]\<rparr>))"
  unfolding MappingResource_patch_def by (rule gated) (intro grows_intros)

lemma mapping_delete_gated:
  "(\<exists>rest. events_of (MappingResource_delete D req i) w = Enforce ''identity:delete_mapping'' None # rest) \<and>
   (enforce_call D ''identity:delete_mapping'' None req (outside w) = Some e \<longrightarrow>
      MappingResource_delete D req i w = (Inl e, w\<lparr>trace := trace w @ [Enforce ''identity:delete_mapping'' None]\<rparr>))"
  unfolding MappingResource_delete_def by (rule gated) (intro grows_intros)

lemma get_service_provider_gated:
  "(\<exists>rest. events_of (get_service_provider D req i) w = Enforce ''identity:get_service_provider'' None # rest) \<and>
   (enforce_call D ''identity:get_service_provider'' None req (outside w) = Some e \<longrightarrow>
      get_service_provider D req i w = (Inl e, w\<lparr>trace := trace w @ [Enforce ''identity:get_service_provider'' None]\<rparr>))"
  unfolding get_service_provider_def by (rule gated) (intro grows_intros)

lemma list_service_providers_gated:
  "(\<exists>rest. events_of (list_service_providers D req) w = Enforce ''identity:list_service_providers'' (Some [''id'', ''enabled'']) # rest) \<and>
   (enforce_call D ''identity:list_service_providers'' (Some [''id'', ''enabled'']) req (outside w) = Some e \<longrightarrow>
      list_service_providers D req w = (Inl e, w\<lparr>trace := trace w @ [Enforce ''identity:list_service_providers'' (Some [''id'', ''enabled''])]\<rparr>))"
  unfolding list_service_providers_def by (rule gated) (intro grows_intros)

lemma sp_put_gated:
  "(\<exists>rest. events_of (ServiceProvidersResource_put D req i) w = Enforce ''identity:create_service_provider'' None # rest) \<and>
   (enforce_call D ''identity:create_service_provider'' None req (outside w) = Some e \<longrightarrow>
      ServiceProvidersResource_put D req i w = (Inl e, w\<lparr>trace := trace w @ [Enforce ''identity:create_service_provider'' None]\<rparr>))"
  unfolding ServiceProvidersResource_put_def by (rule gated) (intro grows_intros)

lemma sp_patch_gated:
  "(\<exists>rest. events_of (ServiceProvidersResource_patch D req i) w = Enforce ''identity:update_service_provider'' None # rest) \<and>
   (enforce_call D ''identity:update_service_provider'' None req (outside w) = Some e \<longrightarrow>
      ServiceProvidersResource_patch D req i w = (Inl e, w\<lparr>trace := trace w @ [Enforce ''identity:update_service_provider'' None]\<rparr>))"
  unfolding ServiceProvidersResource_patch_def by (rule gated) (intro grows_intros)

lemma sp_delete_gated:
  "(\<exists>rest. events_of (ServiceProvidersResource_delete D req i) w = Enforce ''identity:delete_service_provider'' None # rest) \<and>
   (enforce_call D ''identity:delete_service_provider'' None req (outside w) = Some e \<longrightarrow>
      ServiceProvidersResource_delete D req i w = (Inl e, w\<lparr>trace := trace w @ [Enforce ''identity:delete_service_provider'' None]\<rparr>))"
  unfolding ServiceProvidersResource_delete_def by (rule gated) (intro grows_intros)

lemma projects_get_gated:
  "(\<exists>rest. events_of (OSFederationProjectResource_get D req) w = Enforce ''identity:get_auth_projects'' None # rest) \<and>
   (enforce_call D ''identity:get_auth_projects'' None req (outside w) = Some e \<longrightarrow>
      OSFederationProjectResource_get D req w = (Inl e, w\<lparr>trace := trace w @ [Enforce ''identity:get_auth_projects'' None]\<rparr>))"
  unfolding OSFederationProjectResource_get_def by (rule gated) (intro grows_intros)

lemma domains_get_gated:
  "(\<exists>rest. events_of (OSFederationDomainResource_get D req) w = Enforce ''identity:get_auth_domains'' None # rest) \<and>
   (enforce_call D ''identity:get_auth_domains'' None req (outside w) = Some e \<longrightarrow>
      OSFederationDomainResource_get D req w = (Inl e, w\<lparr>trace := trace w @ [Enforce ''identity:get_auth_domains'' None]\<rparr>))"
  unfolding OSFederationDomainResource_get_def by (rule gated) (intro grows_intros)

text \<open>
  Claim C8, amended. Every operation on identity providers, protocols, mappings and
  service providers, and both aggregations, calls \<^verbatim>\<open>ENFORCER.enforce_call\<close> with its own
  action before anything else; when that call raises, the operation ends with the same
  exception, nothing else has been called and the state behind the collaborators is
  what it was. The SAML2 metadata operation and the GET and POST of the federated auth
  endpoint are marked \<^verbatim>\<open>unenforced_api\<close>: they make no policy check, and the one call
  they make is the file read or the token pipeline.
\<close>

theorem policy_check_comes_first:
  "(policy_check op = Some (act, filters) \<longrightarrow>
      (\<exists>rest. events_of (handle D req op) w = Enforce act filters # rest) \<and>
      (enforce_call D act filters req (outside w) = Some e \<longrightarrow>
         handle D req op w = (Inl e, w\<lparr>trace := trace w @ [Enforce act filters]\<rparr>))) \<and>
   (policy_check op = None \<longrightarrow>
      (\<exists>ev. events_of (handle D req op) w = [ev] \<and> downstream ev))"
proof (cases op)
  case (Idp_get x)
  then show ?thesis
    using get_idp_gated [of D req _ w e]
          list_idps_gated [of D req w e]
    by (cases x) (auto simp: IdentityProvidersResource_get_def)
next
  case (Idp_put x)
  then show ?thesis
    using idp_put_gated [of D req x w e]
    by auto
next
  case (Idp_patch x)
  then show ?thesis
    using idp_patch_gated [of D req x w e]
    by auto
next
  case (Idp_delete x)
  then show ?thesis
    using idp_delete_gated [of D req x w e]
    by auto
next
  case (Protocol_get y x)
  then show ?thesis
    using get_protocol_gated [of D req y _ w e]
          list_protocols_gated [of D req y w e]
    by (cases x) (auto simp: IdentityProvidersProtocolsResource_get_def)
next
  case (Protocol_put y x)
  then show ?thesis
    using protocol_put_gated [of D req y x w e]
    by auto
next
  case (Protocol_patch y x)
  then show ?thesis
    using protocol_patch_gated [of D req y x w e]
    by auto
next
  case (Protocol_delete y x)
  then show ?thesis
    using protocol_delete_gated [of D req y x w e]
    by auto
next
  case (Mapping_get x)
  then show ?thesis
    using get_mapping_gated [of D req _ w e]
          list_mappings_gated [of D req w e]
    by (cases x) (auto simp: MappingResource_get_def)
next
  case (Mapping_put x)
  then show ?thesis
    using mapping_put_gated [of D req x w e]
    by auto
next
  case (Mapping_patch x)
  then show ?thesis
    using mapping_patch_gated [of D req x w e]
    by auto
next
  case (Mapping_delete x)
  then show ?thesis
    using mapping_delete_gated [of D req x w e]
    by auto
next
  case (Sp_get x)
  then show ?thesis
    using get_service_provider_gated [of D req _ w e]
          list_service_providers_gated [of D req w e]
    by (cases x) (auto simp: ServiceProvidersResource_get_def)
next
  case (Sp_put x)
  then show ?thesis
    using sp_put_gated [of D req x w e]
    by auto
next
  case (Sp_patch x)
  then show ?thesis
    using sp_patch_gated [of D req x w e]
    by auto
next
  case (Sp_delete x)
  then show ?thesis
    using sp_delete_gated [of D req x w e]
    by auto
next
  case Projects_get
  then show ?thesis
    using projects_get_gated [of D req w e]
    by auto
next
  case Domains_get
  then show ?thesis
    using domains_get_gated [of D req w e]
    by auto
next
  case Metadata_get
  then show ?thesis
    by (auto simp: SAML2MetadataResource_get_def events_of_def split: sum.splits error.splits)
next
  case (Auth_get y x)
  then show ?thesis
    using auth_events [of D req y x w] by (simp add: OSFederationAuthResource_get_def)
next
  case (Auth_post y x)
  then show ?thesis
    using auth_events [of D req y x w] by (simp add: OSFederationAuthResource_post_def)
qed


lemma forbidding_sel [simp]:
  "enforce_call (forbidding D) = (\<lambda>act filters req s. Some Forbidden)"
  "authenticate_for_token (forbidding D) = authenticate_for_token D"
  "default_headers (forbidding D) = default_headers D"
  "open_read (forbidding D) = open_read D"
  "idp_metadata_path (forbidding D) = idp_metadata_path D"
  by (simp_all add: forbidding_def)

text \<open>Under a policy that forbids everything the create of an identity provider stops
  at the check; the delete of a mapping starts with its check; the metadata operation
  makes its one read.\<close>

theorem policy_check_comes_first_witness:
  "handle (forbidding (example_deps no_store))
     (example_request (JDict [(''identity_provider'', JDict [])])) (Idp_put ''idp1'') (fresh ()) =
     (Inl Forbidden,
      (fresh ())\<lparr>trace := trace (fresh ()) @ [Enforce ''identity:create_identity_provider'' None]\<rparr>) \<and>
   (\<exists>rest. events_of (handle (example_deps no_store) (example_request JNull)
                        (Mapping_delete ''m1'')) (fresh ()) =
            Enforce ''identity:delete_mapping'' None # rest) \<and>
   (\<exists>ev. events_of (handle (example_deps no_store) (example_request JNull) Metadata_get)
            (fresh ()) = [ev] \<and> downstream ev)"
  using policy_check_comes_first
          [of "Idp_put ''idp1''" "''identity:create_identity_provider''" None
              "forbidding (example_deps no_store)"
              "example_request (JDict [(''identity_provider'', JDict [])])" "fresh ()" Forbidden]
        policy_check_comes_first
          [of "Mapping_delete ''m1''" "''identity:delete_mapping''" None
              "example_deps no_store" "example_request JNull" "fresh ()" Forbidden]
        policy_check_comes_first
          [of Metadata_get "[]" None
              "example_deps no_store" "example_request JNull" "fresh ()" Forbidden]
  by simp

text \<open>Claim C8 as stated fails for the federated auth endpoint: under a policy that
  forbids every action, GET still reaches the token pipeline and returns its token, and
  no policy check is in the trace.\<close>

theorem unenforced_auth_counterexample:
  "policy_check (Auth_get ''idp1'' ''saml2'') = None \<and>
   enforce_call (forbidding (example_deps no_store)) ''identity:get_identity_provider'' None
     (example_request JNull) () = Some Forbidden \<and>
   handle (forbidding (example_deps no_store)) (example_request JNull)
     (Auth_get ''idp1'' ''saml2'') (fresh ()) =
     (Inr (Response (to_flask_response (example_deps no_store) example_token)),
      \<lparr>trace = [Authenticate_for_token (Request (environ (example_request JNull)))
                  (auth_data ''idp1'' ''saml2'')],
       outside = ()\<rparr>)"
  by (simp add: OSFederationAuthResource_get_def OSFederationAuthResource_auth_def run_defs
      emit_def fresh_def construct_webob_request_def to_flask_response_def make_response_def)

section \<open>Creating an identity provider\<close>

lemma and_then_Inr [simp]: "and_then (Inr x) f = f x"
  by (simp add: and_then_def)

lemma and_then_Inl [simp]: "and_then (Inl e) f = Inl e"
  by (simp add: and_then_def)

lemma wrap_member_idp:
  assumes links: "adds_self_link D IdentityProvidersResource"
      and public: "keeps_public_parameters D IdentityProvidersResource"
  shows "\<exists>m. wrap_member D IdentityProvidersResource (JDict r) None None =
               Inr (JDict [(''identity_provider'', JDict m)]) \<and>
             map_of m ''enabled'' = map_of r ''enabled'' \<and>
             map_of m ''id'' = map_of r ''id''"
proof -
  from links obtain d' l u where
    self: "add_self_referential_link D IdentityProvidersResource (JDict r) None = Inr (JDict d')"
    and l: "map_of d' ''links'' = Some (JDict l)"
    and u: "map_of l ''self'' = Some (JStr u)"
    and same: "\<forall>k. k \<noteq> ''links'' \<longrightarrow> map_of d' k = map_of r k"
    unfolding adds_self_link_def by blast
  let ?l' = "dict_set l ''protocols'' (JStr (u @ ''/protocols''))"
  let ?d'' = "dict_set d' ''links'' (JDict ?l')"
  have related: "add_related_links D IdentityProvidersResource (JDict d') = Inr (JDict ?d'')"
    using l u by simp
  from public obtain m where
    flt: "filter_params D IdentityProvidersResource (JDict ?d'') = Inr (JDict m)"
    and kept: "\<forall>ps k. public_parameters IdentityProvidersResource = Some ps \<longrightarrow> k \<in> set ps \<longrightarrow>
                map_of m k = map_of ?d'' k"
    unfolding keeps_public_parameters_def by blast
  have w: "wrap_member D IdentityProvidersResource (JDict r) None None =
             Inr (JDict [(''identity_provider'', JDict m)])"
    by (simp add: wrap_member_def self related flt del: add_related_links.simps)
  have "map_of m ''enabled'' = map_of ?d'' ''enabled''" "map_of m ''id'' = map_of ?d'' ''id''"
    using kept by simp_all
  then have "map_of m ''enabled'' = map_of r ''enabled''" "map_of m ''id'' = map_of r ''id''"
    using same by (simp_all add: dict_set_map_of)
  with w show ?thesis by blast
qed

lemma remote_ids_setdefault:
  "k \<noteq> ''remote_ids'' \<Longrightarrow>
   remote_ids_of (JDict (dict_setdefault d k v)) = remote_ids_of (JDict d)"
  by (simp add: remote_ids_of_def map_of_dict_setdefault)

lemma conflicts_setdefault:
  "k \<noteq> ''remote_ids'' \<Longrightarrow>
   conflicts i (JDict (dict_setdefault d k v)) reg = conflicts i (JDict d) reg"
  by (simp add: conflicts_def remote_ids_setdefault)


text \<open>
  Claim C6. On an identity provider create that passes the policy check and the
  schema, with a document whose \<^verbatim>\<open>enabled\<close> entry normalization leaves as it was
  submitted: the record given to the store's \<^verbatim>\<open>create_idp\<close> has \<^verbatim>\<open>enabled\<close> false when the
  input omits it and the supplied value otherwise, and no other field is touched. This
  holds for every store. On the registry of the specification, when the id and the
  remote ids are free, and with presentation helpers that add links and keep the public
  parameters, the member returned to the caller has the id and that same \<^verbatim>\<open>enabled\<close>,
  and so has the member that a following get of the id returns.
\<close>

theorem idp_create_defaults_enabled:
  assumes gate_put: "enforce_call D ''identity:create_identity_provider'' None req (outside w) = None"
      and body: "body_member req ''identity_provider'' = Inr (JDict d0)"
      and valid: "lazy_validate D identity_provider_create (JDict d0) = None"
      and norm: "normalize_dict D (JDict d0) = Inr (JDict d)"
      and keep: "map_of d ''enabled'' = map_of d0 ''enabled''"
  shows "\<exists>sent.
           events_of (IdentityProvidersResource_put D req idp_id) w =
             [Enforce ''identity:create_identity_provider'' None,
              Lazy_validate identity_provider_create (JDict d0),
              Federation_api (Create_idp idp_id (JDict sent))] \<and>
           map_of sent ''enabled'' =
             Some (case map_of d0 ''enabled'' of None \<Rightarrow> JBool False | Some v \<Rightarrow> v) \<and>
           (\<forall>k. k \<noteq> ''enabled'' \<longrightarrow> map_of sent k = map_of d k) \<and>
           (federation_api D = registry_api other \<and>
            \<not> conflicts idp_id (JDict d) (idps (outside w)) \<and>
            adds_self_link D IdentityProvidersResource \<and>
            keeps_public_parameters D IdentityProvidersResource \<and>
            (\<forall>s. enforce_call D ''identity:get_identity_provider'' None req' s = None) \<longrightarrow>
              (\<exists>member w1 member'.
                 IdentityProvidersResource_put D req idp_id w =
                   (Inr (Json_status (JDict [(''identity_provider'', JDict member)]) CREATED),
                    w1) \<and>
                 map_of member ''id'' = Some (JStr idp_id) \<and>
                 map_of member ''enabled'' =
                   Some (case map_of d0 ''enabled'' of None \<Rightarrow> JBool False | Some v \<Rightarrow> v) \<and>
                 fst (IdentityProvidersResource_get D req' (Some idp_id) w1) =
                   Inr (Json (JDict [(''identity_provider'', JDict member')])) \<and>
                 map_of member' ''id'' = Some (JStr idp_id) \<and>
                 map_of member' ''enabled'' =
                   Some (case map_of d0 ''enabled'' of None \<Rightarrow> JBool False | Some v \<Rightarrow> v)))"
proof -
  let ?en = "case map_of d0 ''enabled'' of None \<Rightarrow> JBool False | Some v \<Rightarrow> v"
  let ?sent = "dict_setdefault d ''enabled'' (JBool False)"
  let ?stored = "dict_set ?sent ''id'' (JStr idp_id)"
  let ?reg = "idps (outside w)"
  let ?s1 = "(outside w)\<lparr>idps := ?reg @ [(idp_id, JDict ?stored)]\<rparr>"
  let ?w1 = "\<lparr>trace = trace w @ [Enforce ''identity:create_identity_provider'' None,
                Lazy_validate identity_provider_create (JDict d0),
                Federation_api (Create_idp idp_id (JDict ?sent))],
             outside = ?s1\<rparr>"
  have ev: "events_of (IdentityProvidersResource_put D req idp_id) w =
              [Enforce ''identity:create_identity_provider'' None,
               Lazy_validate identity_provider_create (JDict d0),
               Federation_api (Create_idp idp_id (JDict ?sent))]"
    using gate_put body valid norm
    by (simp add: IdentityProvidersResource_put_def run_defs events_of_def emit_def
        split: prod.splits sum.splits)
  have sent_en: "map_of ?sent ''enabled'' = Some ?en"
    by (simp add: map_of_dict_setdefault keep)
  have sent_other: "\<forall>k. k \<noteq> ''enabled'' \<longrightarrow> map_of ?sent k = map_of d k"
    by (simp add: map_of_dict_setdefault)
  have on_registry:
    "\<exists>member w1 member'.
       IdentityProvidersResource_put D req idp_id w =
         (Inr (Json_status (JDict [(''identity_provider'', JDict member)]) CREATED), w1) \<and>
       map_of member ''id'' = Some (JStr idp_id) \<and>
       map_of member ''enabled'' = Some ?en \<and>
       fst (IdentityProvidersResource_get D req' (Some idp_id) w1) =
         Inr (Json (JDict [(''identity_provider'', JDict member')])) \<and>
       map_of member' ''id'' = Some (JStr idp_id) \<and>
       map_of member' ''enabled'' = Some ?en"
    if store: "federation_api D = registry_api other"
      and free: "\<not> conflicts idp_id (JDict d) (idps (outside w))"
      and links: "adds_self_link D IdentityProvidersResource"
      and public: "keeps_public_parameters D IdentityProvidersResource"
      and gate_get: "\<forall>s. enforce_call D ''identity:get_identity_provider'' None req' s = None"
  proof -
    have stored_en: "map_of ?stored ''enabled'' = Some ?en"
      and stored_id: "map_of ?stored ''id'' = Some (JStr idp_id)"
      using sent_en by (simp_all add: dict_set_map_of)
    have no_conflict: "\<not> conflicts idp_id (JDict ?sent) ?reg"
      using free by (simp add: conflicts_setdefault)
    have absent: "map_of ?reg idp_id = None"
      using free by (simp add: conflicts_def)
    have create: "federation_api D (Create_idp idp_id (JDict ?sent)) (outside w) =
                    (Inr (JDict ?stored), ?s1)"
      using no_conflict by (simp add: store spec_create_idp_def)
    have get: "federation_api D (Get_idp idp_id) ?s1 = (Inr (JDict ?stored), ?s1)"
      using absent by (simp add: store spec_get_idp_def map_add_def)
    from wrap_member_idp [OF links public, of ?stored] obtain m where
      wrap: "wrap_member D IdentityProvidersResource (JDict ?stored) None None =
               Inr (JDict [(''identity_provider'', JDict m)])"
      and m_en: "map_of m ''enabled'' = map_of ?stored ''enabled''"
      and m_id: "map_of m ''id'' = map_of ?stored ''id''"
      by blast
    have put: "IdentityProvidersResource_put D req idp_id w =
                 (Inr (Json_status (JDict [(''identity_provider'', JDict m)]) CREATED), ?w1)"
      using gate_put body valid norm create wrap
      by (simp add: IdentityProvidersResource_put_def run_defs emit_def)
    have got: "fst (IdentityProvidersResource_get D req' (Some idp_id) ?w1) =
                 Inr (Json (JDict [(''identity_provider'', JDict m)]))"
      using gate_get get wrap
      by (simp add: IdentityProvidersResource_get_def get_idp_def run_defs emit_def)
    from put m_id m_en stored_id stored_en got show ?thesis
      by (intro exI [of _ m] exI [of _ ?w1]) simp
  qed
  show ?thesis
  proof (rule exI [of _ ?sent], intro conjI impI)
    show "events_of (IdentityProvidersResource_put D req idp_id) w =
            [Enforce ''identity:create_identity_provider'' None,
             Lazy_validate identity_provider_create (JDict d0),
             Federation_api (Create_idp idp_id (JDict ?sent))]"
      by (rule ev)
    show "map_of ?sent ''enabled'' = Some ?en"
      by (rule sent_en)
    show "\<forall>k. k \<noteq> ''enabled'' \<longrightarrow> map_of ?sent k = map_of d k"
      by (rule sent_other)
  next
    assume "federation_api D = registry_api other \<and>
            \<not> conflicts idp_id (JDict d) (idps (outside w)) \<and>
            adds_self_link D IdentityProvidersResource \<and>
            keeps_public_parameters D IdentityProvidersResource \<and>
            (\<forall>s. enforce_call D ''identity:get_identity_provider'' None req' s = None)"
    then show "\<exists>member w1 member'.
       IdentityProvidersResource_put D req idp_id w =
         (Inr (Json_status (JDict [(''identity_provider'', JDict member)]) CREATED), w1) \<and>
       map_of member ''id'' = Some (JStr idp_id) \<and>
       map_of member ''enabled'' = Some ?en \<and>
       fst (IdentityProvidersResource_get D req' (Some idp_id) w1) =
         Inr (Json (JDict [(''identity_provider'', JDict member')])) \<and>
       map_of member' ''id'' = Some (JStr idp_id) \<and>
       map_of member' ''enabled'' = Some ?en"
      using on_registry by simp
  qed
qed

text \<open>The helpers of the small deployment keep to what is assumed of them.\<close>

lemma example_adds_self_link: "adds_self_link (example_deps fed) cls"
  unfolding adds_self_link_def
proof (intro allI)
  fix d cn
  show "\<exists>d' l u.
          add_self_referential_link (example_deps fed) cls (JDict d) cn = Inr (JDict d') \<and>
          map_of d' ''links'' = Some (JDict l) \<and> map_of l ''self'' = Some (JStr u) \<and>
          (\<forall>k. k \<noteq> ''links'' \<longrightarrow> map_of d' k = map_of d k)"
    by (rule exI [of _ "dict_set d ''links'' (JDict [(''self'', JStr (example_url cls cn d))])"],
        rule exI [of _ "[(''self'', JStr (example_url cls cn d))]"],
        rule exI [of _ "example_url cls cn d"])
       (simp add: example_self_link_def dict_set_map_of)
qed

lemma map_of_filter_keys:
  "k \<in> K \<Longrightarrow> map_of (filter (\<lambda>kv. fst kv \<in> K) d) k = map_of d k"
  by (induction d) auto

lemma example_keeps_public_parameters: "keeps_public_parameters (example_deps fed) cls"
  unfolding keeps_public_parameters_def
  by (cases "public_parameters cls")
     (auto simp: example_filter_params_def map_of_filter_keys)

text \<open>On an empty registry: a create without \<^verbatim>\<open>enabled\<close> stores and returns
  \<^verbatim>\<open>enabled = false\<close> and the get that follows returns it too; a create with
  \<^verbatim>\<open>enabled = true\<close> keeps it.\<close>

theorem idp_create_defaults_enabled_witness:
  "(\<exists>sent member w1 member'.
     events_of (IdentityProvidersResource_put (example_deps (registry_api no_store))
        (example_request (JDict [(''identity_provider'', JDict [(''description'', JStr ''A'')])]))
        ''idp1'') (fresh \<lparr>idps = [], rest = ()\<rparr>) =
       [Enforce ''identity:create_identity_provider'' None,
        Lazy_validate identity_provider_create (JDict [(''description'', JStr ''A'')]),
        Federation_api (Create_idp ''idp1'' (JDict sent))] \<and>
     map_of sent ''enabled'' = Some (JBool False) \<and>
     IdentityProvidersResource_put (example_deps (registry_api no_store))
        (example_request (JDict [(''identity_provider'', JDict [(''description'', JStr ''A'')])]))
        ''idp1'' (fresh \<lparr>idps = [], rest = ()\<rparr>) =
       (Inr (Json_status (JDict [(''identity_provider'', JDict member)]) CREATED), w1) \<and>
     map_of member ''id'' = Some (JStr ''idp1'') \<and>
     map_of member ''enabled'' = Some (JBool False) \<and>
     fst (IdentityProvidersResource_get (example_deps (registry_api no_store))
            (example_request JNull) (Some ''idp1'') w1) =
       Inr (Json (JDict [(''identity_provider'', JDict member')])) \<and>
     map_of member' ''id'' = Some (JStr ''idp1'') \<and>
     map_of member' ''enabled'' = Some (JBool False)) \<and>
   (\<exists>sent member w1.
     events_of (IdentityProvidersResource_put (example_deps (registry_api no_store))
        (example_request (JDict [(''identity_provider'', JDict [(''enabled'', JBool True)])]))
        ''idp2'') (fresh \<lparr>idps = [], rest = ()\<rparr>) =
       [Enforce ''identity:create_identity_provider'' None,
        Lazy_validate identity_provider_create (JDict [(''enabled'', JBool True)]),
        Federation_api (Create_idp ''idp2'' (JDict sent))] \<and>
     map_of sent ''enabled'' = Some (JBool True) \<and>
     IdentityProvidersResource_put (example_deps (registry_api no_store))
        (example_request (JDict [(''identity_provider'', JDict [(''enabled'', JBool True)])]))
        ''idp2'' (fresh \<lparr>idps = [], rest = ()\<rparr>) =
       (Inr (Json_status (JDict [(''identity_provider'', JDict member)]) CREATED), w1) \<and>
     map_of member ''enabled'' = Some (JBool True))"
proof -
  let ?D = "example_deps (registry_api no_store)"
  let ?w = "fresh \<lparr>idps = [], rest = ()\<rparr>"
  let ?r1 = "example_request (JDict [(''identity_provider'',
               JDict [(''description'', JStr ''A'')])])"
  let ?r2 = "example_request (JDict [(''identity_provider'', JDict [(''enabled'', JBool True)])])"
  have gate: "enforce_call ?D ''identity:create_identity_provider'' None r (outside ?w) = None"
    for r by simp
  have valid: "lazy_validate ?D identity_provider_create x = None" for x
    by simp
  have norm: "normalize_dict ?D (JDict x) = Inr (JDict x)" for x
    by simp
  have b1: "body_member ?r1 ''identity_provider'' = Inr (JDict [(''description'', JStr ''A'')])"
    and b2: "body_member ?r2 ''identity_provider'' = Inr (JDict [(''enabled'', JBool True)])"
    by (simp_all add: body_member_def)
  have contract:
    "federation_api ?D = registry_api no_store \<and>
     \<not> conflicts i (JDict d) (idps (outside ?w)) \<and>
     adds_self_link ?D IdentityProvidersResource \<and>
     keeps_public_parameters ?D IdentityProvidersResource \<and>
     (\<forall>s. enforce_call ?D ''identity:get_identity_provider'' None (example_request JNull) s = None)"
    for i d
    by (simp add: conflicts_def example_adds_self_link example_keeps_public_parameters)
  from idp_create_defaults_enabled
         [OF gate b1 valid norm refl, of "''idp1''" no_store "example_request JNull"]
  obtain sent1 where
    ev1: "events_of (IdentityProvidersResource_put ?D ?r1 ''idp1'') ?w =
            [Enforce ''identity:create_identity_provider'' None,
             Lazy_validate identity_provider_create (JDict [(''description'', JStr ''A'')]),
             Federation_api (Create_idp ''idp1'' (JDict sent1))]"
    and en1: "map_of sent1 ''enabled'' = Some (JBool False)"
    and reg1: "federation_api ?D = registry_api no_store \<and>
       \<not> conflicts ''idp1'' (JDict [(''description'', JStr ''A'')]) (idps (outside ?w)) \<and>
       adds_self_link ?D IdentityProvidersResource \<and>
       keeps_public_parameters ?D IdentityProvidersResource \<and>
       (\<forall>s. enforce_call ?D ''identity:get_identity_provider'' None (example_request JNull) s =
            None) \<longrightarrow>
       (\<exists>member w1 member'.
          IdentityProvidersResource_put ?D ?r1 ''idp1'' ?w =
            (Inr (Json_status (JDict [(''identity_provider'', JDict member)]) CREATED), w1) \<and>
          map_of member ''id'' = Some (JStr ''idp1'') \<and>
          map_of member ''enabled'' = Some (JBool False) \<and>
          fst (IdentityProvidersResource_get ?D (example_request JNull) (Some ''idp1'') w1) =
            Inr (Json (JDict [(''identity_provider'', JDict member')])) \<and>
          map_of member' ''id'' = Some (JStr ''idp1'') \<and>
          map_of member' ''enabled'' = Some (JBool False))"
    by auto
  from reg1 contract [of "''idp1''" "[(''description'', JStr ''A'')]"]
  obtain member1 w1 member1' where
    put1: "IdentityProvidersResource_put ?D ?r1 ''idp1'' ?w =
            (Inr (Json_status (JDict [(''identity_provider'', JDict member1)]) CREATED), w1)"
    and m1: "map_of member1 ''id'' = Some (JStr ''idp1'')"
            "map_of member1 ''enabled'' = Some (JBool False)"
    and get1: "fst (IdentityProvidersResource_get ?D (example_request JNull) (Some ''idp1'') w1) =
            Inr (Json (JDict [(''identity_provider'', JDict member1')]))"
    and m1': "map_of member1' ''id'' = Some (JStr ''idp1'')"
             "map_of member1' ''enabled'' = Some (JBool False)"
    by blast
  from idp_create_defaults_enabled
         [OF gate b2 valid norm refl, of "''idp2''" no_store "example_request JNull"]
  obtain sent2 where
    ev2: "events_of (IdentityProvidersResource_put ?D ?r2 ''idp2'') ?w =
            [Enforce ''identity:create_identity_provider'' None,
             Lazy_validate identity_provider_create (JDict [(''enabled'', JBool True)]),
             Federation_api (Create_idp ''idp2'' (JDict sent2))]"
    and en2: "map_of sent2 ''enabled'' = Some (JBool True)"
    and reg2: "federation_api ?D = registry_api no_store \<and>
       \<not> conflicts ''idp2'' (JDict [(''enabled'', JBool True)]) (idps (outside ?w)) \<and>
       adds_self_link ?D IdentityProvidersResource \<and>
       keeps_public_parameters ?D IdentityProvidersResource \<and>
       (\<forall>s. enforce_call ?D ''identity:get_identity_provider'' None (example_request JNull) s =
            None) \<longrightarrow>
       (\<exists>member w1 member'.
          IdentityProvidersResource_put ?D ?r2 ''idp2'' ?w =
            (Inr (Json_status (JDict [(''identity_provider'', JDict member)]) CREATED), w1) \<and>
          map_of member ''id'' = Some (JStr ''idp2'') \<and>
          map_of member ''enabled'' = Some (JBool True) \<and>
          fst (IdentityProvidersResource_get ?D (example_request JNull) (Some ''idp2'') w1) =
            Inr (Json (JDict [(''identity_provider'', JDict member')])) \<and>
          map_of member' ''id'' = Some (JStr ''idp2'') \<and>
          map_of member' ''enabled'' = Some (JBool True))"
    by auto
  from reg2 contract [of "''idp2''" "[(''enabled'', JBool True)]"]
  obtain member2 w2 where
    put2: "IdentityProvidersResource_put ?D ?r2 ''idp2'' ?w =
            (Inr (Json_status (JDict [(''identity_provider'', JDict member2)]) CREATED), w2)"
    and m2: "map_of member2 ''enabled'' = Some (JBool True)"
    by blast
  from ev1 en1 put1 m1 get1 m1' ev2 en2 put2 m2 show ?thesis
    by blast
qed

end
